theory Spec2Isabelle
  imports Complex_Main
begin

section \<open>JavaScript values\<close>

text \<open>
  The handlers of \<^verbatim>\<open>server.js\<close> work on parsed JSON (query parameters, provider
  responses) without checking its shape, so the model keeps the dynamic values.
  A missing property reads as \<open>JUndefined\<close>.  Numbers are the integers (the provider
  reports lifetimes in whole seconds and timestamps in whole milliseconds); a
  \<open>NaN\<close> that a computation produces is \<open>None\<close> of an \<open>int option\<close>.
  Strings are byte lists (UTF-8).  An object is the list of its properties, keys
  distinct, as \<^verbatim>\<open>JSON.parse\<close> leaves it.
\<close>

datatype jsval =
    JUndefined
  | JNull
  | JBool bool
  | JNum int
  | JStr string
  | JArr "jsval list"
  | JObj "(string \<times> jsval) list"

text \<open>What a \<^verbatim>\<open>try\<close> block can catch.  \<open>HttpError status data message\<close> is an axios
  rejection that carries \<^verbatim>\<open>error.response\<close>; \<open>NetworkError message\<close> is an axios
  rejection without a response; \<open>DbError message\<close> is a rejection of
  \<^verbatim>\<open>dbPool.execute\<close>; \<open>TypeError\<close> and \<open>RangeError\<close> are raised by the engine.\<close>

datatype thrown =
    TypeError
  | RangeError
  | HttpError nat jsval string
  | NetworkError string
  | DbError string

text \<open>\<^verbatim>\<open>!v\<close> is \<open>\<not> truthy v\<close>.\<close>

fun truthy :: "jsval \<Rightarrow> bool" where
  "truthy JUndefined = False"
| "truthy JNull = False"
| "truthy (JBool b) = b"
| "truthy (JNum n) = (n \<noteq> 0)"
| "truthy (JStr s) = (s \<noteq> [])"
| "truthy (JArr xs) = True"
| "truthy (JObj kvs) = True"

text \<open>\<^verbatim>\<open>v.k\<close>: a property read throws on \<^verbatim>\<open>undefined\<close> and \<^verbatim>\<open>null\<close>.  None of the
  property names the handlers read is a built-in property of a string, an array, a
  number or a boolean, so those read as \<^verbatim>\<open>undefined\<close>.\<close>

fun get_prop :: "jsval \<Rightarrow> string \<Rightarrow> thrown + jsval" where
  "get_prop JUndefined k = Inl TypeError"
| "get_prop JNull k = Inl TypeError"
| "get_prop (JObj kvs) k = Inr (case map_of kvs k of None \<Rightarrow> JUndefined | Some v \<Rightarrow> v)"
| "get_prop (JBool b) k = Inr JUndefined"
| "get_prop (JNum n) k = Inr JUndefined"
| "get_prop (JStr s) k = Inr JUndefined"
| "get_prop (JArr xs) k = Inr JUndefined"

text \<open>\<^verbatim>\<open>v?.k\<close>: optional chaining never throws.\<close>

fun opt_prop :: "jsval \<Rightarrow> string \<Rightarrow> jsval" where
  "opt_prop (JObj kvs) k = (case map_of kvs k of None \<Rightarrow> JUndefined | Some v \<Rightarrow> v)"
| "opt_prop v k = JUndefined"

subsection \<open>Numbers and strings\<close>

text \<open>The decimal digits of an integer, as JavaScript prints one below \<open>10\<^sup>2\<^sup>1\<close>.\<close>

fun string_of_nat :: "nat \<Rightarrow> string" where
  "string_of_nat n =
     (if n < 10 then [''0123456789'' ! n]
      else string_of_nat (n div 10) @ [''0123456789'' ! (n mod 10)])"

declare string_of_nat.simps [simp del]

definition string_of_int :: "int \<Rightarrow> string" where
  "string_of_int i = (if i < 0 then CHR ''-'' # string_of_nat (nat (- i)) else string_of_nat (nat i))"

fun join :: "string \<Rightarrow> string list \<Rightarrow> string" where
  "join sep [] = []"
| "join sep [x] = x"
| "join sep (x # y # ys) = x @ sep @ join sep (y # ys)"

text \<open>\<^verbatim>\<open>String(v)\<close>, the conversion a template literal applies.  An array joins its
  elements with commas, \<^verbatim>\<open>null\<close> and \<^verbatim>\<open>undefined\<close> elements as the empty string.\<close>

fun to_string :: "jsval \<Rightarrow> string" where
  "to_string JUndefined = ''undefined''"
| "to_string JNull = ''null''"
| "to_string (JBool b) = (if b then ''true'' else ''false'')"
| "to_string (JNum n) = string_of_int n"
| "to_string (JStr s) = s"
| "to_string (JArr xs) =
     join '','' (map (\<lambda>x. if x = JUndefined \<or> x = JNull then [] else to_string x) xs)"
| "to_string (JObj kvs) = ''[object Object]''"

text \<open>\<^verbatim>\<open>ToPrimitive\<close>: objects and arrays become their strings.\<close>

fun to_primitive :: "jsval \<Rightarrow> jsval" where
  "to_primitive (JArr xs) = JStr (to_string (JArr xs))"
| "to_primitive (JObj kvs) = JStr (to_string (JObj kvs))"
| "to_primitive v = v"

subsection \<open>Built-ins taken as parameters\<close>

text \<open>Three built-in parsers and printers of the engine are parameters of the model:
  \<^verbatim>\<open>Number(s)\<close> on a string (\<open>None\<close> is \<^verbatim>\<open>NaN\<close>), \<^verbatim>\<open>Date.parse\<close>, and
  \<^verbatim>\<open>JSON.stringify\<close> (\<open>None\<close> is \<^verbatim>\<open>undefined\<close>); so are the text of the message of an
  error the engine raises and the time zone of the process: \<open>LocalTZA t isUTC\<close> is the
  offset of local time from UTC in milliseconds at the time \<open>t\<close>, which is a UTC time
  value when \<open>isUTC\<close> holds and a local one otherwise.\<close>

record js_runtime =
  LocalTZA :: "int \<Rightarrow> bool \<Rightarrow> int"
  StringToNumber :: "string \<Rightarrow> int option"
  Date_parse :: "string \<Rightarrow> int option"
  JSON_stringify :: "jsval \<Rightarrow> string option"
  engine_message :: "thrown \<Rightarrow> string"

subsection \<open>Dates\<close>

text \<open>A \<^verbatim>\<open>Date\<close> is its time value in milliseconds since the epoch, \<open>None\<close> for an
  invalid date.\<close>

definition TimeClip :: "int \<Rightarrow> int option" where
  "TimeClip t = (if \<bar>t\<bar> \<le> 8640000000000000 then Some t else None)"

text \<open>\<^verbatim>\<open>d.getSeconds()\<close> on a valid date \<open>t\<close>: the seconds of its local time.\<close>

definition getSeconds :: "js_runtime \<Rightarrow> int \<Rightarrow> int" where
  "getSeconds rt t = ((t + LocalTZA rt t True) div 1000) mod 60"

text \<open>\<^verbatim>\<open>n + v\<close> for a number \<open>n\<close>, converted to a number as \<^verbatim>\<open>setSeconds\<close> does: a string
  operand makes \<^verbatim>\<open>+\<close> a concatenation.\<close>

definition plus_to_number :: "js_runtime \<Rightarrow> int \<Rightarrow> jsval \<Rightarrow> int option" where
  "plus_to_number rt n v =
     (case to_primitive v of
        JStr s \<Rightarrow> StringToNumber rt (string_of_int n @ s)
      | JUndefined \<Rightarrow> None
      | JNull \<Rightarrow> Some n
      | JBool b \<Rightarrow> Some (n + (if b then 1 else 0))
      | JNum m \<Rightarrow> Some (n + m)
      | _ \<Rightarrow> None)"

text \<open>\<^verbatim>\<open>d.setSeconds(sec)\<close> on a valid date \<open>t\<close>: the seconds of the local time are
  replaced, and the local time so made is taken back to UTC with the offset in force
  at that local time, which across a change of the offset is not the one it was
  reached with.\<close>

definition setSeconds :: "js_runtime \<Rightarrow> int \<Rightarrow> int option \<Rightarrow> int option" where
  "setSeconds rt t sec =
     (case sec of
        None \<Rightarrow> None
      | Some s \<Rightarrow>
          let local = t + LocalTZA rt t True;
              made = local - ((local div 1000) mod 60) * 1000 + s * 1000
          in TimeClip (made - LocalTZA rt made False))"

text \<open>\<^verbatim>\<open>new Date(v)\<close>: a string is parsed, anything else is converted to a number.\<close>

definition new_Date :: "js_runtime \<Rightarrow> jsval \<Rightarrow> int option" where
  "new_Date rt v =
     (case to_primitive v of
        JStr s \<Rightarrow> (case Date_parse rt s of None \<Rightarrow> None | Some t \<Rightarrow> TimeClip t)
      | JUndefined \<Rightarrow> None
      | JNull \<Rightarrow> TimeClip 0
      | JBool b \<Rightarrow> TimeClip (if b then 1 else 0)
      | JNum n \<Rightarrow> TimeClip n
      | _ \<Rightarrow> None)"

text \<open>The proleptic Gregorian date (year, month, day) of a day number counted from
  1970-01-01.\<close>

definition civil_from_days :: "int \<Rightarrow> int \<times> int \<times> int" where
  "civil_from_days days =
     (let z = days + 719468;
          era = z div 146097;
          doe = z - era * 146097;
          yoe = (doe - doe div 1460 + doe div 36524 - doe div 146096) div 365;
          doy = doe - (365 * yoe + yoe div 4 - yoe div 100);
          mp = (5 * doy + 2) div 153;
          d = doy - (153 * mp + 2) div 5 + 1;
          m = (if mp < 10 then mp + 3 else mp - 9);
          y = yoe + era * 400 + (if m \<le> 2 then 1 else 0)
      in (y, m, d))"

definition pad :: "nat \<Rightarrow> int \<Rightarrow> string" where
  "pad k n = replicate (k - length (string_of_nat (nat n))) CHR ''0'' @ string_of_nat (nat n)"

definition iso_year :: "int \<Rightarrow> string" where
  "iso_year y =
     (if 0 \<le> y \<and> y \<le> 9999 then pad 4 y
      else (if y < 0 then CHR ''-'' else CHR ''+'') # pad 6 \<bar>y\<bar>)"

text \<open>\<^verbatim>\<open>d.toISOString()\<close> throws a \<^verbatim>\<open>RangeError\<close> on an invalid date.\<close>

definition toISOString :: "int option \<Rightarrow> thrown + string" where
  "toISOString d =
     (case d of
        None \<Rightarrow> Inl RangeError
      | Some t \<Rightarrow>
          (case civil_from_days (t div 86400000) of
             (y, m, dd) \<Rightarrow>
               let ms = t mod 86400000 in
               Inr (iso_year y @ ''-'' @ pad 2 m @ ''-'' @ pad 2 dd @ ''T''
                    @ pad 2 (ms div 3600000) @ '':'' @ pad 2 (ms div 60000 mod 60) @ '':''
                    @ pad 2 (ms div 1000 mod 60) @ ''.'' @ pad 3 (ms mod 1000) @ ''Z'')))"

text \<open>\<^verbatim>\<open>s.split('T')[0]\<close>\<close>

definition before_T :: "string \<Rightarrow> string" where
  "before_T s = takeWhile (\<lambda>c. c \<noteq> CHR ''T'') s"

section \<open>Configuration, requests, responses\<close>

text \<open>\<^verbatim>\<open>process.env\<close>: a variable is a string or is not set.\<close>

record env_vars =
  FRONTEND_URL :: "string option"
  BACKEND_URL :: "string option"
  LINKEDIN_CLIENT_ID :: "string option"
  LINKEDIN_CLIENT_SECRET :: "string option"

text \<open>A variable inside a template literal, and as a value.\<close>

definition tmpl :: "string option \<Rightarrow> string" where
  "tmpl v = (case v of None \<Rightarrow> ''undefined'' | Some s \<Rightarrow> s)"

definition env_val :: "string option \<Rightarrow> jsval" where
  "env_val v = (case v of None \<Rightarrow> JUndefined | Some s \<Rightarrow> JStr s)"

text \<open>An outbound axios call: \<^verbatim>\<open>axios.post(url, data, {params, headers})\<close> or
  \<^verbatim>\<open>axios.get(url, {headers})\<close>.\<close>

record request =
  http_method :: string
  url :: string
  data :: jsval
  params :: "(string \<times> jsval) list"
  headers :: "(string \<times> string) list"

text \<open>The Express response object.  \<^verbatim>\<open>res.redirect(url)\<close> sets the status to 302
  whatever \<^verbatim>\<open>res.status\<close> set before.  Two things Express does with the URL are left
  out: it percent-encodes the characters of it that cannot stand in a URL before it
  sets the \<^verbatim>\<open>Location\<close> header, and it sends a body of boilerplate that names the URL
  and nothing else.\<close>

datatype body = NoBody | Text string | Json jsval

record response =
  statusCode :: nat
  location :: "string option"
  content :: body

definition res0 :: response where
  "res0 = \<lparr>statusCode = 200, location = None, content = NoBody\<rparr>"

definition res_status :: "nat \<Rightarrow> response \<Rightarrow> response" where
  "res_status n r = r\<lparr>statusCode := n\<rparr>"

definition res_redirect :: "string \<Rightarrow> response \<Rightarrow> response" where
  "res_redirect u r = r\<lparr>statusCode := 302, location := Some u\<rparr>"

definition res_json :: "jsval \<Rightarrow> response \<Rightarrow> response" where
  "res_json v r = r\<lparr>content := Json v\<rparr>"

definition res_send :: "string \<Rightarrow> response \<Rightarrow> response" where
  "res_send s r = r\<lparr>content := Text s\<rparr>"

section \<open>The token store\<close>

text \<open>One row of the table \<^verbatim>\<open>linkedin_auth\<close>.  The values are kept as the handler
  binds them; \<open>expires_at\<close> is the time value of the bound \<^verbatim>\<open>Date\<close>.\<close>

record auth_row =
  user_id :: string
  access_token :: jsval
  expires_at :: "int option"

type_synonym auth_table = "auth_row list"

text \<open>Modelled from the spec: the schema of \<^verbatim>\<open>linkedin_auth\<close> is not in the repository;
  the spec has ``one table keyed by user identifier'', so \<open>user_id\<close> is the unique
  key and \<^verbatim>\<open>INSERT ... ON DUPLICATE KEY UPDATE access_token = ?, expires_at = ?\<close>
  updates the row of that key in place, or appends a row when there is none.\<close>

definition keyed :: "auth_table \<Rightarrow> bool" where
  "keyed t = distinct (map user_id t)"

definition upsert :: "auth_table \<Rightarrow> auth_row \<Rightarrow> auth_table" where
  "upsert t r =
     (if \<exists>x \<in> set t. user_id x = user_id r
      then map (\<lambda>x. if user_id x = user_id r
                     then x\<lparr>access_token := access_token r, expires_at := expires_at r\<rparr>
                     else x) t
      else t @ [r])"

text \<open>\<^verbatim>\<open>SELECT ... FROM linkedin_auth WHERE user_id = ?\<close>\<close>

definition select_user :: "auth_table \<Rightarrow> string \<Rightarrow> auth_row list" where
  "select_user t u = filter (\<lambda>x. user_id x = u) t"

text \<open>What one request meets outside the handler: the environment variables, whether
  \<^verbatim>\<open>dbPool\<close> holds a pool, whether the database executes a statement (\<open>db_fault\<close> is
  the message of the rejection when it does not), the provider's answer to each
  outbound call, the clock, and the successive results of \<^verbatim>\<open>Math.random()\<close>.\<close>

record world =
  env :: env_vars
  dbPool :: bool
  db_fault :: "string option"
  net :: "request \<Rightarrow> thrown + jsval"
  now :: int
  random :: "nat \<Rightarrow> real"
  runtime :: js_runtime

text \<open>A value bound to a placeholder of a statement: a JavaScript value or a \<^verbatim>\<open>Date\<close>.\<close>

datatype bind = BVal jsval | BDate "int option"

text \<open>\<^verbatim>\<open>await dbPool.execute(sql, values)\<close> for a statement whose effect is \<open>result\<close>: a
  \<^verbatim>\<open>TypeError\<close> when \<^verbatim>\<open>dbPool\<close> holds no pool; a rejection when the database cannot be
  reached or does not execute the statement (also for the values it is given: a
  \<^verbatim>\<open>NULL\<close> or a date that the column does not take); and the \<^verbatim>\<open>TypeError\<close> of the driver
  when a bound value is \<^verbatim>\<open>undefined\<close>.\<close>

definition execute :: "world \<Rightarrow> bind list \<Rightarrow> 'a \<Rightarrow> thrown + 'a" where
  "execute w values result =
     (if \<not> dbPool w then Inl TypeError
      else case db_fault w of
             Some m \<Rightarrow> Inl (DbError m)
           | None \<Rightarrow> if BVal JUndefined \<in> set values then Inl TypeError else Inr result)"

section \<open>OAuth routes\<close>

text \<open>What a handler leaves behind: the response, the table, and the outbound calls
  it made, in order.\<close>

record outcome =
  res :: response
  tbl :: auth_table
  calls :: "request list"


datatype revision = Rev1 | Rev2 | Rev3

text \<open>The three revisions of \<^verbatim>\<open>server.js\<close> in the repository are modelled side by
  side: \<open>_v1\<close> is the file of lines 1--162, \<open>_v2\<close> of lines 163--357, \<open>_v3\<close> of
  lines 358--572.  Logging is not modelled.\<close>

subsection \<open>\<^verbatim>\<open>GET /auth/linkedin\<close>\<close>

definition unreserved :: "char \<Rightarrow> bool" where
  "unreserved c =
     (c \<in> set ''ABCDEFGHIJKLMNOPQRSTUVWXYZabcdefghijklmnopqrstuvwxyz0123456789-_.!~*()''
      \<or> c = CHR 0x27)"

definition percent :: "char \<Rightarrow> string" where
  "percent c =
     [CHR ''%'', ''0123456789ABCDEF'' ! (of_char c div 16), ''0123456789ABCDEF'' ! (of_char c mod 16)]"

definition encodeURIComponent :: "string \<Rightarrow> string" where
  "encodeURIComponent s = concat (map (\<lambda>c. if unreserved c then [c] else percent c) s)"

definition auth_linkedin :: "world \<Rightarrow> response" where
  "auth_linkedin w =
     (let scope = ''r_liteprofile'';
          redirectUri = tmpl (BACKEND_URL (env w)) @ ''/auth/linkedin/callback'';
          url = ''https://www.linkedin.com/oauth/v2/authorization?response_type=code&client_id=''
                @ tmpl (LINKEDIN_CLIENT_ID (env w))
                @ ''&redirect_uri='' @ encodeURIComponent redirectUri
                @ ''&scope='' @ encodeURIComponent scope
      in res_redirect url res0)"

subsection \<open>\<^verbatim>\<open>GET /auth/linkedin/callback\<close>\<close>

text \<open>The arguments of \<^verbatim>\<open>axios.post\<close>, lines 62--71, 249--258 and 446--455.\<close>

definition token_request_v1 :: "world \<Rightarrow> jsval \<Rightarrow> string \<Rightarrow> request" where
  "token_request_v1 w code redirectUri =
     \<lparr>http_method = ''POST'',
      url = ''https://www.linkedin.com/oauth/v2/accessToken'',
      data = JNull,
      params = [(''grant_type'', JStr ''authorization_code''),
                (''code'', code),
                (''redirect_uri'', JStr redirectUri),
                (''client_id'', env_val (LINKEDIN_CLIENT_ID (env w))),
                (''client_secret'', env_val (LINKEDIN_CLIENT_SECRET (env w)))],
      headers = [(''Content-Type'', ''application/x-form-urlencoded'')]\<rparr>"

definition token_request_v2 :: "world \<Rightarrow> jsval \<Rightarrow> string \<Rightarrow> request" where
  "token_request_v2 w code redirectUri =
     \<lparr>http_method = ''POST'',
      url = ''https://www.linkedin.com/oauth/v2/accessToken'',
      data = JNull,
      params = [(''grant_type'', JStr ''authorization_code''),
                (''code'', code),
                (''redirect_uri'', JStr redirectUri),
                (''client_id'', env_val (LINKEDIN_CLIENT_ID (env w))),
                (''client_secret'', env_val (LINKEDIN_CLIENT_SECRET (env w)))],
      headers = [(''Content-Type'', ''application/x-form-urlencoded'')]\<rparr>"

definition token_request_v3 :: "world \<Rightarrow> jsval \<Rightarrow> request" where
  "token_request_v3 w code =
     \<lparr>http_method = ''POST'',
      url = ''https://www.linkedin.com/oauth/v2/accessToken'',
      data = JNull,
      params = [(''grant_type'', JStr ''authorization_code''),
                (''code'', code),
                (''redirect_uri'', JStr (tmpl (BACKEND_URL (env w)) @ ''/auth/linkedin/callback'')),
                (''client_id'', env_val (LINKEDIN_CLIENT_ID (env w))),
                (''client_secret'', env_val (LINKEDIN_CLIENT_SECRET (env w)))],
      headers = [(''Content-Type'', ''application/x-www-form-urlencoded'')]\<rparr>"

text \<open>Lines 73--77 (the same in every revision): destructure the token response,
  which throws when the body is \<^verbatim>\<open>null\<close>, and compute the expiry with
  \<^verbatim>\<open>setSeconds(getSeconds() + expires_in)\<close>.\<close>

definition token_row :: "world \<Rightarrow> jsval \<Rightarrow> thrown + auth_row" where
  "token_row w tokenResponse_data =
     (case get_prop tokenResponse_data ''access_token'' of
        Inl e \<Rightarrow> Inl e
      | Inr access_token' \<Rightarrow>
     (case get_prop tokenResponse_data ''expires_in'' of
        Inl e \<Rightarrow> Inl e
      | Inr expires_in \<Rightarrow>
          let expires_at' =
                setSeconds (runtime w) (now w)
                  (plus_to_number (runtime w) (getSeconds (runtime w) (now w)) expires_in);
              userId = ''default_user''
          in Inr \<lparr>user_id = userId, access_token = access_token', expires_at = expires_at'\<rparr>))"

text \<open>The body of the \<^verbatim>\<open>try\<close> block, lines 62--81: the exchange, then the upsert.
  The result is the table after the statement, or what was thrown.\<close>

definition exchange_and_store :: "world \<Rightarrow> request \<Rightarrow> auth_table \<Rightarrow> thrown + auth_table" where
  "exchange_and_store w rq t =
     (case net w rq of
        Inl e \<Rightarrow> Inl e
      | Inr tokenResponse_data \<Rightarrow>
     (case token_row w tokenResponse_data of
        Inl e \<Rightarrow> Inl e
      | Inr row \<Rightarrow>
          execute w [BVal (JStr (user_id row)), BVal (access_token row), BDate (expires_at row),
                     BVal (access_token row), BDate (expires_at row)]
            (upsert t row)))"

definition callback_v1 :: "world \<Rightarrow> jsval \<Rightarrow> auth_table \<Rightarrow> outcome" where
  "callback_v1 w code t =
     (let redirectUri = tmpl (BACKEND_URL (env w)) @ ''/auth/linkedin/callback'' in
      if \<not> truthy code
      then \<lparr>res = res_redirect (tmpl (FRONTEND_URL (env w)) @ ''/settings?error=true'')
                    (res_status 400 res0),
            tbl = t, calls = []\<rparr>
      else
        let rq = token_request_v1 w code redirectUri in
        case exchange_and_store w rq t of
          Inr t' \<Rightarrow>
            \<lparr>res = res_redirect (tmpl (FRONTEND_URL (env w)) @ ''/settings?connected=true'') res0,
             tbl = t', calls = [rq]\<rparr>
        | Inl error \<Rightarrow>
            \<lparr>res = res_redirect (tmpl (FRONTEND_URL (env w)) @ ''/settings?error=true'') res0,
             tbl = t, calls = [rq]\<rparr>)"

definition callback_v2 :: "world \<Rightarrow> jsval \<Rightarrow> auth_table \<Rightarrow> outcome" where
  "callback_v2 w code t =
     (if \<not> dbPool w
      then \<lparr>res = res_send ''Server error: Database connection failed.'' (res_status 500 res0),
            tbl = t, calls = []\<rparr>
      else
        let redirectUri = tmpl (BACKEND_URL (env w)) @ ''/auth/linkedin/callback'' in
        if \<not> truthy code
        then \<lparr>res = res_redirect (tmpl (FRONTEND_URL (env w)) @ ''/settings?error=true'')
                      (res_status 400 res0),
              tbl = t, calls = []\<rparr>
        else
          let rq = token_request_v2 w code redirectUri in
          case exchange_and_store w rq t of
            Inr t' \<Rightarrow>
              \<lparr>res = res_redirect (tmpl (FRONTEND_URL (env w)) @ ''/settings?connected=true'') res0,
               tbl = t', calls = [rq]\<rparr>
          | Inl error \<Rightarrow>
              \<lparr>res = res_redirect (tmpl (FRONTEND_URL (env w)) @ ''/settings?error=true'') res0,
               tbl = t, calls = [rq]\<rparr>)"

definition callback_v3 :: "world \<Rightarrow> jsval \<Rightarrow> auth_table \<Rightarrow> outcome" where
  "callback_v3 w code t =
     (if \<not> truthy code
      then \<lparr>res = res_redirect (tmpl (FRONTEND_URL (env w)) @ ''/settings?error=true'') res0,
            tbl = t, calls = []\<rparr>
      else
        let rq = token_request_v3 w code in
        case exchange_and_store w rq t of
          Inr t' \<Rightarrow>
            \<lparr>res = res_redirect (tmpl (FRONTEND_URL (env w)) @ ''/settings?connected=true'') res0,
             tbl = t', calls = [rq]\<rparr>
        | Inl error \<Rightarrow>
            \<lparr>res = res_redirect (tmpl (FRONTEND_URL (env w)) @ ''/settings?error=true'') res0,
             tbl = t, calls = [rq]\<rparr>)"

fun callback :: "revision \<Rightarrow> world \<Rightarrow> jsval \<Rightarrow> auth_table \<Rightarrow> outcome" where
  "callback Rev1 = callback_v1"
| "callback Rev2 = callback_v2"
| "callback Rev3 = callback_v3"

text \<open>The request a revision sends for a code.\<close>

fun token_request :: "revision \<Rightarrow> world \<Rightarrow> jsval \<Rightarrow> request" where
  "token_request Rev1 w code =
     token_request_v1 w code (tmpl (BACKEND_URL (env w)) @ ''/auth/linkedin/callback'')"
| "token_request Rev2 w code =
     token_request_v2 w code (tmpl (BACKEND_URL (env w)) @ ''/auth/linkedin/callback'')"
| "token_request Rev3 w code = token_request_v3 w code"

text \<open>The landing page of a successful exchange.\<close>

definition success_page :: "world \<Rightarrow> string" where
  "success_page w = tmpl (FRONTEND_URL (env w)) @ ''/settings?connected=true''"

text \<open>A sequence of callback requests, each with the world it meets, on one table.\<close>

fun callbacks :: "revision \<Rightarrow> (world \<times> jsval) list \<Rightarrow> auth_table \<Rightarrow> auth_table" where
  "callbacks rv [] t = t"
| "callbacks rv ((w, code) # rest) t = callbacks rv rest (tbl (callback rv w code t))"

text \<open>What the end user sees of a successful exchange: the handler answers with the
  redirect to the success page.  (The response never depends on the table.)\<close>

definition successful :: "revision \<Rightarrow> world \<Rightarrow> jsval \<Rightarrow> bool" where
  "successful rv w code = (location (res (callback rv w code [])) = Some (success_page w))"


section \<open>API routes\<close>

subsection \<open>\<^verbatim>\<open>GET /api/status\<close>\<close>

definition status_v1 :: "world \<Rightarrow> auth_table \<Rightarrow> outcome" where
  "status_v1 w t =
     (case execute w [BVal (JStr ''default_user'')] (select_user t ''default_user'') of
        Inr rows \<Rightarrow>
          if length rows > 0
          then \<lparr>res = res_json (JObj [(''isConnected'', JBool True)]) res0, tbl = t, calls = []\<rparr>
          else \<lparr>res = res_json (JObj [(''isConnected'', JBool False)]) res0, tbl = t, calls = []\<rparr>
      | Inl error \<Rightarrow>
          \<lparr>res = res_json (JObj [(''isConnected'', JBool False),
                                  (''message'', JStr ''Could not check status.'')])
                   (res_status 500 res0),
           tbl = t, calls = []\<rparr>)"

definition status_v2 :: "world \<Rightarrow> auth_table \<Rightarrow> outcome" where
  "status_v2 w t =
     (if \<not> dbPool w
      then \<lparr>res = res_json (JObj [(''isConnected'', JBool False)]) res0, tbl = t, calls = []\<rparr>
      else
        case execute w [BVal (JStr ''default_user'')] (select_user t ''default_user'') of
          Inr rows \<Rightarrow>
            \<lparr>res = res_json (JObj [(''isConnected'', JBool (length rows > 0))]) res0,
             tbl = t, calls = []\<rparr>
        | Inl error \<Rightarrow>
            \<lparr>res = res_json (JObj [(''isConnected'', JBool False),
                                    (''message'', JStr ''Could not check status.'')])
                     (res_status 500 res0),
             tbl = t, calls = []\<rparr>)"

definition status_v3 :: "world \<Rightarrow> auth_table \<Rightarrow> outcome" where
  "status_v3 w t =
     (case execute w [BVal (JStr ''default_user'')] (select_user t ''default_user'') of
        Inr rows \<Rightarrow>
          \<lparr>res = res_json (JObj [(''isConnected'', JBool (length rows > 0))]) res0,
           tbl = t, calls = []\<rparr>
      | Inl error \<Rightarrow>
          \<lparr>res = res_json (JObj [(''isConnected'', JBool False)]) (res_status 500 res0),
           tbl = t, calls = []\<rparr>)"

fun api_status :: "revision \<Rightarrow> world \<Rightarrow> auth_table \<Rightarrow> outcome" where
  "api_status Rev1 = status_v1"
| "api_status Rev2 = status_v2"
| "api_status Rev3 = status_v3"

subsection \<open>\<^verbatim>\<open>GET /api/posts\<close>\<close>

text \<open>\<^verbatim>\<open>xs.map(f)\<close> for a callback that may throw and that draws random numbers: the
  index of the next draw is threaded through.  Anything but an array has no
  \<^verbatim>\<open>map\<close> to call.\<close>

fun map_elements ::
  "(nat \<Rightarrow> jsval \<Rightarrow> thrown + jsval \<times> nat) \<Rightarrow> nat \<Rightarrow> jsval list \<Rightarrow> thrown + jsval list \<times> nat" where
  "map_elements f i [] = Inr ([], i)"
| "map_elements f i (p # ps) =
     (case f i p of
        Inl e \<Rightarrow> Inl e
      | Inr (q, j) \<Rightarrow>
          (case map_elements f j ps of
             Inl e \<Rightarrow> Inl e
           | Inr (qs, k) \<Rightarrow> Inr (q # qs, k)))"

definition array_map ::
  "(nat \<Rightarrow> jsval \<Rightarrow> thrown + jsval \<times> nat) \<Rightarrow> jsval \<Rightarrow> thrown + jsval list" where
  "array_map f v =
     (case v of
        JArr xs \<Rightarrow> (case map_elements f 0 xs of Inl e \<Rightarrow> Inl e | Inr (ys, k) \<Rightarrow> Inr ys)
      | _ \<Rightarrow> Inl TypeError)"

text \<open>\<^verbatim>\<open>Math.floor(Math.random() * n)\<close> on the \<open>i\<close>-th draw; a draw is a real number, in
  the engine one from 0 up to but not including 1.  The product is the exact one; the
  engine rounds it to a binary64 number first, so for some draws its floor is one
  more.  A draw that is a power of two, such as one half, is not among them.\<close>

definition random_below :: "world \<Rightarrow> nat \<Rightarrow> int \<Rightarrow> int" where
  "random_below w i n = \<lfloor>random w i * real_of_int n\<rfloor>"

text \<open>The callback of \<^verbatim>\<open>elements.map\<close>, lines 120--131 and (the same) 303--312.
  The placeholder draws a random number only when there is no download URL.\<close>

definition format_post_v1 :: "world \<Rightarrow> nat \<Rightarrow> jsval \<Rightarrow> thrown + jsval \<times> nat" where
  "format_post_v1 w i post =
     (case get_prop post ''id'' of
        Inl e \<Rightarrow> Inl e
      | Inr post_id \<Rightarrow>
     (case get_prop post ''commentary'' of
        Inl e \<Rightarrow> Inl e
      | Inr commentary \<Rightarrow>
     (case get_prop post ''content'' of
        Inl e \<Rightarrow> Inl e
      | Inr post_content \<Rightarrow>
     (case get_prop post ''createdAt'' of
        Inl e \<Rightarrow> Inl e
      | Inr createdAt \<Rightarrow>
          let downloadUrl = opt_prop (opt_prop (opt_prop post_content ''media'') ''source'') ''downloadUrl'';
              imageUrl = (if truthy downloadUrl then downloadUrl
                          else JStr (''https://picsum.photos/800/400?random=''
                                     @ string_of_int (random_below w i 1000)));
              j = (if truthy downloadUrl then i else Suc i)
          in
          (case toISOString (new_Date (runtime w) createdAt) of
             Inl e \<Rightarrow> Inl e
           | Inr isoString \<Rightarrow>
               Inr (JObj [(''id'', post_id),
                          (''content'', if truthy commentary then commentary else JStr []),
                          (''imageUrl'', imageUrl),
                          (''impressions'', JNum 0),
                          (''reactions'', JObj [(''likes'', JNum 0), (''celebrations'', JNum 0),
                                                (''loves'', JNum 0), (''insights'', JNum 0),
                                                (''funny'', JNum 0)]),
                          (''comments'', JNum 0),
                          (''shares'', JNum 0),
                          (''date'', JStr (before_T isoString))],
                    j))))))"

text \<open>The callback of \<^verbatim>\<open>elements.map\<close>, lines 519--540.\<close>

definition format_post_v3 :: "world \<Rightarrow> nat \<Rightarrow> jsval \<Rightarrow> thrown + jsval \<times> nat" where
  "format_post_v3 w i post =
     (case get_prop post ''specificContent'' of
        Inl e \<Rightarrow> Inl e
      | Inr specificContent \<Rightarrow>
     (case get_prop specificContent ''com.linkedin.ugc.ShareContent'' of
        Inl e \<Rightarrow> Inl e
      | Inr shareContent \<Rightarrow>
          let text' = opt_prop (opt_prop shareContent ''shareCommentary'') ''text'';
              commentary = (if truthy text' then text' else JStr [])
          in
     (case get_prop post ''created'' of
        Inl e \<Rightarrow> Inl e
      | Inr created \<Rightarrow>
     (case get_prop created ''time'' of
        Inl e \<Rightarrow> Inl e
      | Inr time \<Rightarrow>
     (case toISOString (new_Date (runtime w) time) of
        Inl e \<Rightarrow> Inl e
      | Inr isoString \<Rightarrow>
     (case get_prop post ''id'' of
        Inl e \<Rightarrow> Inl e
      | Inr post_id \<Rightarrow>
          Inr (JObj [(''id'', post_id),
                     (''content'', commentary),
                     (''imageUrl'', JStr (''https://picsum.photos/800/400?random=''
                                          @ string_of_int (random_below w i 1000))),
                     (''impressions'', JNum (random_below w (i + 1) 5000 + 500)),
                     (''reactions'', JObj [(''likes'', JNum (random_below w (i + 2) 100)),
                                           (''celebrations'', JNum (random_below w (i + 3) 20)),
                                           (''loves'', JNum (random_below w (i + 4) 15)),
                                           (''insights'', JNum (random_below w (i + 5) 25)),
                                           (''funny'', JNum (random_below w (i + 6) 5))]),
                     (''comments'', JNum (random_below w (i + 7) 50)),
                     (''shares'', JNum (random_below w (i + 8) 10)),
                     (''date'', JStr (before_T isoString))],
               i + 9)))))))"

text \<open>\<^verbatim>\<open>error.response\<close> and \<^verbatim>\<open>error.message\<close> of what was caught.\<close>

fun error_response :: "thrown \<Rightarrow> (nat \<times> jsval) option" where
  "error_response (HttpError st d m) = Some (st, d)"
| "error_response e = None"

fun error_message :: "js_runtime \<Rightarrow> thrown \<Rightarrow> string" where
  "error_message rt (HttpError st d m) = m"
| "error_message rt (NetworkError m) = m"
| "error_message rt (DbError m) = m"
| "error_message rt e = engine_message rt e"

text \<open>The outbound calls: the identity lookup (the same in every revision) and the
  post listing.\<close>

definition profile_request :: "jsval \<Rightarrow> request" where
  "profile_request accessToken =
     \<lparr>http_method = ''GET'', url = ''https://api.linkedin.com/v2/me'', data = JUndefined,
      params = [],
      headers = [(''Authorization'', ''Bearer '' @ to_string accessToken)]\<rparr>"

definition posts_request_v1 :: "jsval \<Rightarrow> jsval \<Rightarrow> request" where
  "posts_request_v1 accessToken profile_id =
     (let personUrn = ''urn:li:person:'' @ to_string profile_id;
          linkedInApiUrl = ''https://api.linkedin.com/rest/posts?author='' @ personUrn
                           @ ''&q=author&count=15''
      in \<lparr>http_method = ''GET'', url = linkedInApiUrl, data = JUndefined, params = [],
          headers = [(''Authorization'', ''Bearer '' @ to_string accessToken),
                     (''LinkedIn-Version'', ''202405'')]\<rparr>)"

definition posts_request_v3 :: "jsval \<Rightarrow> jsval \<Rightarrow> request" where
  "posts_request_v3 accessToken userUrn =
     (let postsApiUrl = ''https://api.linkedin.com/v2/shares?q=owners&owners=urn:li:person:''
                        @ to_string userUrn @ ''&count=15''
      in \<lparr>http_method = ''GET'', url = postsApiUrl, data = JUndefined, params = [],
          headers = [(''Authorization'', ''Bearer '' @ to_string accessToken),
                     (''X-Restli-Protocol-Version'', ''2.0.0'')]\<rparr>)"

text \<open>The body of the \<^verbatim>\<open>try\<close> block of the posts route, for a request builder and a
  post formatter: the outbound calls made, and the response or what was thrown.
  Lines 95--133, 287--313 and 493--542.\<close>

definition posts_try ::
  "(jsval \<Rightarrow> jsval \<Rightarrow> request) \<Rightarrow> (world \<Rightarrow> nat \<Rightarrow> jsval \<Rightarrow> thrown + jsval \<times> nat) \<Rightarrow>
   world \<Rightarrow> auth_table \<Rightarrow> request list \<times> (thrown + response)" where
  "posts_try posts_request format_post' w t =
     (case execute w [BVal (JStr ''default_user'')] (select_user t ''default_user'') of
        Inl e \<Rightarrow> ([], Inl e)
      | Inr [] \<Rightarrow>
          ([], Inr (res_json (JObj [(''message'',
                                     JStr ''Not authenticated. Please connect to LinkedIn.'')])
                      (res_status 401 res0)))
      | Inr (row # rows) \<Rightarrow>
          let accessToken = access_token row;
              rq1 = profile_request accessToken
          in
          (case net w rq1 of
             Inl e \<Rightarrow> ([rq1], Inl e)
           | Inr profile_data \<Rightarrow>
          (case get_prop profile_data ''id'' of
             Inl e \<Rightarrow> ([rq1], Inl e)
           | Inr profile_id \<Rightarrow>
               let rq2 = posts_request accessToken profile_id in
          (case net w rq2 of
             Inl e \<Rightarrow> ([rq1, rq2], Inl e)
           | Inr api_data \<Rightarrow>
          (case get_prop api_data ''elements'' of
             Inl e \<Rightarrow> ([rq1, rq2], Inl e)
           | Inr elements \<Rightarrow>
          (case array_map (format_post' w) elements of
             Inl e \<Rightarrow> ([rq1, rq2], Inl e)
           | Inr formattedPosts \<Rightarrow>
               ([rq1, rq2], Inr (res_json (JArr formattedPosts) res0))))))))"

text \<open>The \<^verbatim>\<open>catch\<close> blocks, lines 135--142 (and 314--320), and 544--553.\<close>

definition posts_catch_v1 :: "thrown \<Rightarrow> response" where
  \<open>posts_catch_v1 error =
     (case error_response error of
        Some (st, d) \<Rightarrow>
          if st = 403
          then res_json (JObj [(''message'', JStr ''Authentication successful, but you do not have permission to access post data. Please ensure your LinkedIn App has the "Community Management API" product approved.'')])
                 (res_status 403 res0)
          else res_json (JObj [(''message'', JStr ''Failed to fetch posts from LinkedIn API.'')])
                 (res_status 500 res0)
      | None \<Rightarrow>
          res_json (JObj [(''message'', JStr ''Failed to fetch posts from LinkedIn API.'')])
            (res_status 500 res0))\<close>

definition posts_catch_v3 :: "js_runtime \<Rightarrow> thrown \<Rightarrow> response" where
  \<open>posts_catch_v3 rt error =
     (let errorMessage =
            (case error_response error of
               Some (st, d) \<Rightarrow> (case JSON_stringify rt d of None \<Rightarrow> ''undefined'' | Some s \<Rightarrow> s)
             | None \<Rightarrow> error_message rt error)
      in
      case error_response error of
        Some (st, d) \<Rightarrow>
          if st = 403
          then res_json (JObj [(''message'', JStr ''Permission Denied. Ensure your LinkedIn App has been approved for the "Community Management API" product to read posts.'')])
                 (res_status 403 res0)
          else res_json (JObj [(''message'', JStr (''Failed to fetch posts. Server error: '' @ errorMessage))])
                 (res_status 500 res0)
      | None \<Rightarrow>
          res_json (JObj [(''message'', JStr (''Failed to fetch posts. Server error: '' @ errorMessage))])
            (res_status 500 res0))\<close>

definition posts_v1 :: "world \<Rightarrow> auth_table \<Rightarrow> outcome" where
  "posts_v1 w t =
     (case posts_try posts_request_v1 format_post_v1 w t of
        (cs, Inr r) \<Rightarrow> \<lparr>res = r, tbl = t, calls = cs\<rparr>
      | (cs, Inl error) \<Rightarrow> \<lparr>res = posts_catch_v1 error, tbl = t, calls = cs\<rparr>)"

definition posts_v2 :: "world \<Rightarrow> auth_table \<Rightarrow> outcome" where
  "posts_v2 w t =
     (if \<not> dbPool w
      then \<lparr>res = res_json (JObj [(''message'', JStr ''Server error: Database connection failed.'')])
                    (res_status 500 res0),
            tbl = t, calls = []\<rparr>
      else
        case posts_try posts_request_v1 format_post_v1 w t of
          (cs, Inr r) \<Rightarrow> \<lparr>res = r, tbl = t, calls = cs\<rparr>
        | (cs, Inl error) \<Rightarrow> \<lparr>res = posts_catch_v1 error, tbl = t, calls = cs\<rparr>)"

definition posts_v3 :: "world \<Rightarrow> auth_table \<Rightarrow> outcome" where
  "posts_v3 w t =
     (case posts_try posts_request_v3 format_post_v3 w t of
        (cs, Inr r) \<Rightarrow> \<lparr>res = r, tbl = t, calls = cs\<rparr>
      | (cs, Inl error) \<Rightarrow> \<lparr>res = posts_catch_v3 (runtime w) error, tbl = t, calls = cs\<rparr>)"

fun api_posts :: "revision \<Rightarrow> world \<Rightarrow> auth_table \<Rightarrow> outcome" where
  "api_posts Rev1 = posts_v1"
| "api_posts Rev2 = posts_v2"
| "api_posts Rev3 = posts_v3"

fun format_post :: "revision \<Rightarrow> world \<Rightarrow> nat \<Rightarrow> jsval \<Rightarrow> thrown + jsval \<times> nat" where
  "format_post Rev1 = format_post_v1"
| "format_post Rev2 = format_post_v1"
| "format_post Rev3 = format_post_v3"

section \<open>Notions the properties are stated with\<close>

text \<open>The token record of an exchange: the row that lines 73--77 build from the
  provider's answer to the token request.\<close>

definition exchanged_row :: "revision \<Rightarrow> world \<Rightarrow> jsval \<Rightarrow> thrown + auth_row" where
  "exchanged_row rv w code =
     (case net w (token_request rv w code) of Inl e \<Rightarrow> Inl e | Inr d \<Rightarrow> token_row w d)"

text \<open>A successful exchange, said of what the request meets and not of what the
  handler answers: the request carries a code, the provider answers the token
  request, a row is built from the answer, and the store takes the write (there is
  a pool, the database executes the statement and the token to bind is not
  \<^verbatim>\<open>undefined\<close>).\<close>

definition exchange_succeeds :: "revision \<Rightarrow> world \<Rightarrow> jsval \<Rightarrow> bool" where
  "exchange_succeeds rv w code =
     (truthy code \<and> dbPool w \<and> db_fault w = None \<and>
      (case exchanged_row rv w code of
         Inl e \<Rightarrow> False
       | Inr row \<Rightarrow> access_token row \<noteq> JUndefined))"

text \<open>What a formatter reads as the commentary and as the media reference of a
  provider post.  Revision 3 reads no media reference at all.\<close>

fun commentary_of :: "revision \<Rightarrow> jsval \<Rightarrow> jsval" where
  "commentary_of Rev3 post =
     opt_prop (opt_prop (opt_prop (opt_prop post ''specificContent'')
       ''com.linkedin.ugc.ShareContent'') ''shareCommentary'') ''text''"
| "commentary_of rv post = opt_prop post ''commentary''"

fun media_of :: "revision \<Rightarrow> jsval \<Rightarrow> jsval" where
  "media_of Rev3 post = JUndefined"
| "media_of rv post =
     opt_prop (opt_prop (opt_prop (opt_prop post ''content'') ''media'') ''source'') ''downloadUrl''"

subsection \<open>Concrete worlds\<close>

definition runtime0 :: js_runtime where
  "runtime0 = \<lparr>LocalTZA = (\<lambda>t isUTC. 0), StringToNumber = (\<lambda>s. None), Date_parse = (\<lambda>s. None),
               JSON_stringify = (\<lambda>v. None), engine_message = (\<lambda>e. ''error'')\<rparr>"

definition env0 :: env_vars where
  "env0 = \<lparr>FRONTEND_URL = Some ''https://app.example'', BACKEND_URL = Some ''https://api.example'',
           LINKEDIN_CLIENT_ID = Some ''client'', LINKEDIN_CLIENT_SECRET = Some ''secret''\<rparr>"

text \<open>A provider that issues \<open>token\<close>, knows the member \<^verbatim>\<open>me\<close> and lists one post.\<close>

definition provider :: "string \<Rightarrow> request \<Rightarrow> thrown + jsval" where
  "provider token rq =
     (if url rq = ''https://www.linkedin.com/oauth/v2/accessToken''
      then Inr (JObj [(''access_token'', JStr token), (''expires_in'', JNum 5184000)])
      else if url rq = ''https://api.linkedin.com/v2/me''
      then Inr (JObj [(''id'', JStr ''me'')])
      else Inr (JObj [(''elements'',
                       JArr [JObj [(''id'', JStr ''p1''), (''commentary'', JStr ''hi''),
                                   (''createdAt'', JNum 1700000000000)]])]))"

definition world1 :: world where
  "world1 = \<lparr>env = env0, dbPool = True, db_fault = None, net = provider ''tok1'',
             now = 1700000000123, random = (\<lambda>i. 1 / 2), runtime = runtime0\<rparr>"

definition world2 :: world where
  "world2 = world1\<lparr>net := provider ''tok2'', now := 1700000600000\<rparr>"

text \<open>The provider refuses every call with status 400; the pool was never created.\<close>

definition world_refused :: world where
  "world_refused =
     world1\<lparr>net := (\<lambda>rq. Inl (HttpError 400 (JObj [(''error'', JStr ''invalid_request'')])
                                ''Request failed with status code 400''))\<rparr>"

definition world_down :: world where
  "world_down = world1\<lparr>dbPool := False\<rparr>"

text \<open>The provider answers the token request with a body that carries no token.\<close>

definition world_malformed :: world where
  "world_malformed = world1\<lparr>net := (\<lambda>rq. Inr (JObj [(''expires_in'', JNum 5184000)]))\<rparr>"

text \<open>The identity lookup answers; the post listing is refused with status 403.\<close>

definition world_denied :: world where
  "world_denied =
     world1\<lparr>net := (\<lambda>rq. if url rq = ''https://api.linkedin.com/v2/me''
                           then Inr (JObj [(''id'', JStr ''me'')])
                           else Inl (HttpError 403 (JObj [(''message'', JStr ''Not enough permissions'')])
                                      ''Request failed with status code 403''))\<rparr>"

text \<open>A table with a token on file, and a share as revision 3 reads it.\<close>

definition table1 :: auth_table where
  "table1 = [\<lparr>user_id = ''default_user'', access_token = JStr ''tok1'',
              expires_at = Some 1705184000123\<rparr>]"

definition share1 :: jsval where
  "share1 = JObj [(''id'', JStr ''s1''),
                  (''specificContent'',
                   JObj [(''com.linkedin.ugc.ShareContent'',
                          JObj [(''shareCommentary'', JObj [(''text'', JStr ''hi'')])])]),
                  (''created'', JObj [(''time'', JNum 1700000000000)])]"

section \<open>Properties\<close>

subsection \<open>The store\<close>

lemmas model_defs =
  callback_v1_def callback_v2_def callback_v3_def exchange_and_store_def token_row_def execute_def
  upsert_def select_user_def token_request_v1_def token_request_v2_def token_request_v3_def
  setSeconds_def plus_to_number_def getSeconds_def TimeClip_def tmpl_def env_val_def
  res_redirect_def res_status_def res_json_def res_send_def res0_def success_page_def Let_def

lemmas world_defs = runtime0_def env0_def provider_def world1_def

lemma keyed_upsert: "keyed t \<Longrightarrow> keyed (upsert t r)"
  unfolding keyed_def upsert_def
  by (auto simp: distinct_map comp_def inj_on_def)

lemma filter_key_unique:
  "distinct (map f t) \<Longrightarrow> x \<in> set t \<Longrightarrow> filter (\<lambda>y. f y = f x) t = [x]"
proof (induction t)
  case Nil
  then show ?case by simp
next
  case (Cons a t)
  show ?case
  proof (cases "a = x")
    case True
    with Cons.prems have "\<forall>y \<in> set t. f y \<noteq> f x" by (force simp: image_iff)
    then have "filter (\<lambda>y. f y = f x) t = []" by (simp add: filter_empty_conv)
    with True show ?thesis by simp
  next
    case False
    with Cons.prems have "x \<in> set t" and "f a \<noteq> f x" by auto
    with Cons show ?thesis by simp
  qed
qed

text \<open>After an upsert the key holds exactly the row written: the row replaces the
  one that was there, if any.\<close>

lemma select_upsert_same:
  assumes "keyed t"
  shows "select_user (upsert t r) (user_id r) = [r]"
proof (cases "\<exists>x \<in> set t. user_id x = user_id r")
  case False
  then have "filter (\<lambda>x. user_id x = user_id r) t = []" by (simp add: filter_empty_conv)
  with False show ?thesis by (simp add: upsert_def select_user_def)
next
  case True
  then obtain x where x: "x \<in> set t" "user_id x = user_id r" by blast
  let ?upd = "\<lambda>x. if user_id x = user_id r
                     then x\<lparr>access_token := access_token r, expires_at := expires_at r\<rparr>
                     else x"
  have "filter (\<lambda>y. user_id y = user_id r) (map ?upd t)
        = map ?upd (filter (\<lambda>y. user_id y = user_id r) t)"
    by (induction t) auto
  also have "filter (\<lambda>y. user_id y = user_id r) t = [x]"
    using filter_key_unique [of user_id t x] assms x by (simp add: keyed_def)
  also have "map ?upd [x] = [r]" using x by simp
  finally show ?thesis using True by (simp add: upsert_def select_user_def)
qed

lemma select_upsert_other:
  assumes "u \<noteq> user_id r"
  shows "select_user (upsert t r) u = select_user t u"
proof -
  have "filter (\<lambda>y. user_id y = u)
          (map (\<lambda>x. if user_id x = user_id r
                     then x\<lparr>access_token := access_token r, expires_at := expires_at r\<rparr>
                     else x) t)
        = filter (\<lambda>y. user_id y = u) t"
    using assms by (induction t) auto
  with assms show ?thesis by (simp add: upsert_def select_user_def)
qed

text \<open>An upsert on a key that is there never appends.\<close>

lemma length_upsert:
  "(\<exists>x \<in> set t. user_id x = user_id r) \<Longrightarrow> length (upsert t r) = length t"
  by (simp add: upsert_def)

subsection \<open>The callback route\<close>

lemma token_row_user: "token_row w d = Inr row \<Longrightarrow> user_id row = ''default_user''"
  by (auto simp: token_row_def Let_def split: sum.splits)

text \<open>With a whole number of seconds as lifetime and a time zone whose offset does not
  change, the expiry is the clock plus that many seconds.\<close>

lemma token_row_numeric:
  assumes "\<forall>t u. LocalTZA (runtime w) t u = z"
  shows "token_row w (JObj [(''access_token'', tok), (''expires_in'', JNum n)])
         = Inr \<lparr>user_id = ''default_user'', access_token = tok,
                expires_at = TimeClip (now w + 1000 * n)\<rparr>"
proof -
  have "now w + z - (now w + z) div 1000 mod 60 * 1000
          + ((now w + z) div 1000 mod 60 + n) * 1000 - z = now w + 1000 * n"
    by (simp add: algebra_simps)
  with assms show ?thesis
    by (simp add: token_row_def setSeconds_def getSeconds_def plus_to_number_def Let_def
        mult.commute)
qed

lemma get_prop_cases:
  "get_prop v k = (if v = JUndefined \<or> v = JNull then Inl TypeError else Inr (opt_prop v k))"
  by (cases v) auto

lemma token_row_access_token:
  "token_row w d = Inr row \<Longrightarrow> access_token row = opt_prop d ''access_token''"
  by (auto simp: token_row_def get_prop_cases Let_def split: if_splits)

text \<open>A successful exchange is stored: the handler sends the one token request,
  upserts the row built from the answer and redirects to the success page.\<close>

lemma callback_writes:
  assumes "exchange_succeeds rv w code"
  shows "\<exists>row. exchanged_row rv w code = Inr row
           \<and> tbl (callback rv w code t) = upsert t row
           \<and> calls (callback rv w code t) = [token_request rv w code]
           \<and> res (callback rv w code t) =
               \<lparr>statusCode = 302,
                location = Some (tmpl (FRONTEND_URL (env w)) @ ''/settings?connected=true''),
                content = NoBody\<rparr>"
  using assms
  by (cases rv)
    (auto simp: exchange_succeeds_def exchanged_row_def callback_v1_def callback_v2_def
      callback_v3_def exchange_and_store_def execute_def token_row_user Let_def
      res_redirect_def res0_def
      split: sum.splits)

text \<open>Any other request leaves the table as it is and is not sent to the success
  page.\<close>

lemma callback_keeps:
  assumes "\<not> exchange_succeeds rv w code"
  shows "tbl (callback rv w code t) = t
         \<and> location (res (callback rv w code t)) \<noteq> Some (success_page w)"
  using assms
  by (cases rv)
    (auto simp: exchange_succeeds_def exchanged_row_def callback_v1_def callback_v2_def
      callback_v3_def exchange_and_store_def execute_def Let_def success_page_def
      res_redirect_def res_status_def res_send_def res0_def
      split: sum.splits option.splits if_splits)

text \<open>So the redirect to the success page tells a successful exchange.\<close>

lemma successful_iff: "successful rv w code \<longleftrightarrow> exchange_succeeds rv w code"
proof (cases "exchange_succeeds rv w code")
  case True
  from callback_writes [OF True, of "[]"] show ?thesis
    using True by (auto simp: successful_def success_page_def)
next
  case False
  from callback_keeps [OF False, of "[]"] show ?thesis
    using False by (simp add: successful_def)
qed

lemma callback_cases:
  "(\<not> successful rv w code \<and> tbl (callback rv w code t) = t) \<or>
   (successful rv w code \<and>
    (\<exists>row. exchanged_row rv w code = Inr row \<and> tbl (callback rv w code t) = upsert t row))"
proof (cases "exchange_succeeds rv w code")
  case True
  from callback_writes [OF True, of t] True show ?thesis by (auto simp: successful_iff)
next
  case False
  from callback_keeps [OF False, of t] False show ?thesis by (simp add: successful_iff)
qed

lemma callback_res_table_independent:
  "res (callback rv w code t) = res (callback rv w code t')"
  by (cases rv)
    (auto simp: callback_v1_def callback_v2_def callback_v3_def exchange_and_store_def
      execute_def Let_def split: sum.splits option.splits)

lemma callbacks_append: "callbacks rv (xs @ ys) t = callbacks rv ys (callbacks rv xs t)"
  by (induction xs arbitrary: t) auto

lemma callback_keyed: "keyed t \<Longrightarrow> keyed (tbl (callback rv w code t))"
  using callback_cases [of rv w code t] by (auto simp: keyed_upsert)

lemma callbacks_keyed: "keyed t \<Longrightarrow> keyed (callbacks rv cs t)"
  by (induction cs arbitrary: t) (auto simp: callback_keyed)

lemma callbacks_unsuccessful:
  "\<forall>(w, code) \<in> set cs. \<not> exchange_succeeds rv w code \<Longrightarrow> callbacks rv cs t = t"
proof (induction cs arbitrary: t)
  case Nil
  then show ?case by simp
next
  case (Cons c cs)
  obtain w code where c: "c = (w, code)" by (cases c)
  with Cons.prems have "\<not> exchange_succeeds rv w code" by simp
  then have "tbl (callback rv w code t) = t" using callback_keeps by blast
  with Cons c show ?case by simp
qed

text \<open>The last successful exchange of a sequence decides what is on file.\<close>

lemma callbacks_last_successful:
  assumes "keyed t0"
    and "exchange_succeeds rv w code"
    and "\<forall>(w', code') \<in> set later. \<not> exchange_succeeds rv w' code'"
  shows "\<exists>row. exchanged_row rv w code = Inr row \<and> user_id row = ''default_user'' \<and>
           select_user (callbacks rv (earlier @ (w, code) # later) t0) ''default_user'' = [row]"
proof -
  let ?t1 = "callbacks rv earlier t0"
  have k1: "keyed ?t1" using assms(1) by (rule callbacks_keyed)
  from callback_writes [OF assms(2), of ?t1]
  obtain row where row: "exchanged_row rv w code = Inr row"
    and t2: "tbl (callback rv w code ?t1) = upsert ?t1 row" by blast
  from row have u: "user_id row = ''default_user''"
    by (auto simp: exchanged_row_def split: sum.splits dest: token_row_user)
  have fin: "callbacks rv (earlier @ (w, code) # later) t0 = upsert ?t1 row"
    using callbacks_unsuccessful [OF assms(3)] t2 by (simp add: callbacks_append)
  have "select_user (upsert ?t1 row) (user_id row) = [row]"
    using k1 by (rule select_upsert_same)
  with row u fin show ?thesis by auto
qed

text \<open>Claim C1.  Take any sequence of callback requests on a keyed table, in any
  revision.  A request of it is a successful exchange when it carries a code, the
  provider answers the token request with a body from which a row is built, and the
  store takes the write.  The table stays keyed (at most one row per user).  Either
  no request of the sequence is a successful exchange, and the table is as it was; or
  the sequence has a most recent successful exchange, and after the sequence the
  table holds exactly one row for \<^verbatim>\<open>default_user\<close>, which is the row of that exchange:
  its access token and its expiry.\<close>

theorem idempotent_replace:
  assumes "keyed t0"
  shows "keyed (callbacks rv cs t0) \<and>
         (((\<forall>(w, code) \<in> set cs. \<not> exchange_succeeds rv w code) \<and> callbacks rv cs t0 = t0)
          \<or> (\<exists>earlier w code later row.
                cs = earlier @ (w, code) # later \<and> exchange_succeeds rv w code
                \<and> (\<forall>(w', code') \<in> set later. \<not> exchange_succeeds rv w' code')
                \<and> exchanged_row rv w code = Inr row \<and> user_id row = ''default_user''
                \<and> select_user (callbacks rv cs t0) ''default_user'' = [row]))"
proof (cases "\<exists>c \<in> set cs. exchange_succeeds rv (fst c) (snd c)")
  case False
  then have none: "\<forall>(w, code) \<in> set cs. \<not> exchange_succeeds rv w code" by auto
  with callbacks_unsuccessful [OF none] assms callbacks_keyed show ?thesis by blast
next
  case True
  from split_list_last_prop [OF True]
  obtain earlier c later where cs: "cs = earlier @ c # later"
    and c: "exchange_succeeds rv (fst c) (snd c)"
    and later: "\<forall>z \<in> set later. \<not> exchange_succeeds rv (fst z) (snd z)" by blast
  obtain w code where wc: "c = (w, code)" by (cases c)
  from later have later': "\<forall>(w', code') \<in> set later. \<not> exchange_succeeds rv w' code'" by auto
  from c wc have s: "exchange_succeeds rv w code" by simp
  from callbacks_last_successful [OF assms s later', of earlier]
  obtain row where "exchanged_row rv w code = Inr row" "user_id row = ''default_user''"
    "select_user (callbacks rv (earlier @ (w, code) # later) t0) ''default_user'' = [row]" by blast
  with cs wc s later' callbacks_keyed [OF assms] show ?thesis by blast
qed

text \<open>Two exchanges, then a refused exchange, an answer without a token and a request
  without a code: in every revision the token of the second exchange is the one on
  file.\<close>

theorem idempotent_replace_witness:
  "keyed []
   \<and> exchange_succeeds Rev1 world1 (JStr ''abc123'')
   \<and> exchange_succeeds Rev1 world2 (JStr ''def456'')
   \<and> \<not> exchange_succeeds Rev1 world_refused (JStr ''ghi789'')
   \<and> \<not> exchange_succeeds Rev1 world_malformed (JStr ''jkl012'')
   \<and> \<not> exchange_succeeds Rev1 world1 JUndefined
   \<and> exchanged_row Rev1 world2 (JStr ''def456'')
       = Inr \<lparr>user_id = ''default_user'', access_token = JStr ''tok2'',
              expires_at = Some 1705184600000\<rparr>
   \<and> select_user
         (callbacks Rev1 [(world1, JStr ''abc123''), (world2, JStr ''def456''),
                          (world_refused, JStr ''ghi789''), (world_malformed, JStr ''jkl012''),
                          (world1, JUndefined)] [])
         ''default_user''
       = [\<lparr>user_id = ''default_user'', access_token = JStr ''tok2'',
            expires_at = Some 1705184600000\<rparr>]
   \<and> select_user
         (callbacks Rev2 [(world1, JStr ''abc123''), (world2, JStr ''def456''),
                          (world_refused, JStr ''ghi789''), (world_malformed, JStr ''jkl012''),
                          (world1, JUndefined)] [])
         ''default_user''
       = [\<lparr>user_id = ''default_user'', access_token = JStr ''tok2'',
            expires_at = Some 1705184600000\<rparr>]
   \<and> select_user
         (callbacks Rev3 [(world1, JStr ''abc123''), (world2, JStr ''def456''),
                          (world_refused, JStr ''ghi789''), (world_malformed, JStr ''jkl012''),
                          (world1, JUndefined)] [])
         ''default_user''
       = [\<lparr>user_id = ''default_user'', access_token = JStr ''tok2'',
            expires_at = Some 1705184600000\<rparr>]"
  using idempotent_replace [of "[]" Rev1 "[(world1, JStr ''abc123''), (world2, JStr ''def456''),
                          (world_refused, JStr ''ghi789''), (world_malformed, JStr ''jkl012''),
                          (world1, JUndefined)]"]
    idempotent_replace [of "[]" Rev2 "[(world1, JStr ''abc123''), (world2, JStr ''def456''),
                          (world_refused, JStr ''ghi789''), (world_malformed, JStr ''jkl012''),
                          (world1, JUndefined)]"]
    idempotent_replace [of "[]" Rev3 "[(world1, JStr ''abc123''), (world2, JStr ''def456''),
                          (world_refused, JStr ''ghi789''), (world_malformed, JStr ''jkl012''),
                          (world1, JUndefined)]"]
  by (simp add: model_defs world_defs world2_def world_refused_def world_malformed_def
      exchange_succeeds_def keyed_def exchanged_row_def)

text \<open>Claim C2, as amended.  For every callback request in which the \<^verbatim>\<open>code\<close> query
  parameter is absent or the empty string, the handler writes nothing to the store
  and makes no outbound call.  It answers with the redirect to the failure page
  \<^verbatim>\<open>FRONTEND_URL/settings?error=true\<close>, except in revision 2 when the connection pool
  was never created: there the guard at the head of the handler answers 500 with a
  fixed text before the code is looked at.\<close>

theorem callback_without_code:
  assumes "code = JUndefined \<or> code = JStr []"
  shows "tbl (callback rv w code t) = t \<and> calls (callback rv w code t) = [] \<and>
         res (callback rv w code t) =
           (if rv = Rev2 \<and> \<not> dbPool w
            then \<lparr>statusCode = 500, location = None,
                  content = Text ''Server error: Database connection failed.''\<rparr>
            else \<lparr>statusCode = 302,
                  location = Some (tmpl (FRONTEND_URL (env w)) @ ''/settings?error=true''),
                  content = NoBody\<rparr>)"
  using assms by (cases rv) (auto simp: model_defs)

theorem callback_without_code_witness:
  "tbl (callback Rev1 world1 (JStr []) []) = [] \<and> calls (callback Rev1 world1 (JStr []) []) = [] \<and>
   res (callback Rev1 world1 (JStr []) []) =
     \<lparr>statusCode = 302, location = Some ''https://app.example/settings?error=true'',
      content = NoBody\<rparr>"
  using callback_without_code [of "JStr []" Rev1 world1 "[]"]
  by (simp add: tmpl_def world_defs)

text \<open>Revision 2, no pool, no code: the answer is not a redirect.\<close>

theorem callback_without_code_counterexample:
  "res (callback Rev2 world_down JUndefined []) =
     \<lparr>statusCode = 500, location = None,
      content = Text ''Server error: Database connection failed.''\<rparr>"
  by (simp add: model_defs world_defs world_down_def)

text \<open>The exchange fails exactly when the request carries no code, the token call
  rejects, the answer carries no access token, or the store does not take the
  write.\<close>

lemma exchange_fails_iff:
  "\<not> exchange_succeeds rv w code \<longleftrightarrow>
     (\<not> truthy code
      \<or> (\<exists>e. net w (token_request rv w code) = Inl e)
      \<or> (\<exists>d. net w (token_request rv w code) = Inr d \<and> opt_prop d ''access_token'' = JUndefined)
      \<or> \<not> dbPool w \<or> db_fault w \<noteq> None)"
  by (auto simp: exchange_succeeds_def exchanged_row_def token_row_def get_prop_cases Let_def
      split: sum.splits if_splits)

text \<open>Claim C9, as amended.  For every failure during the exchange (the token call
  rejects: a network error or a non-2xx response; the response is malformed: its
  body carries no access token to store; the store is unavailable or rejects the
  write), the table is unchanged and the response is the 302 redirect to
  \<^verbatim>\<open>FRONTEND_URL/settings?error=true\<close>.  That response is built from the configuration
  alone: it carries neither the token nor anything of what was thrown.  The exception
  is revision 2 when the connection pool was never created: the guard at the head of
  the handler answers 500 with a fixed plain text instead of a redirect.\<close>

theorem callback_failure_response:
  assumes "(\<exists>e. net w (token_request rv w code) = Inl e)
         \<or> (\<exists>d. net w (token_request rv w code) = Inr d
                \<and> opt_prop d ''access_token'' = JUndefined)
         \<or> \<not> dbPool w \<or> db_fault w \<noteq> None"
  shows "res (callback rv w code t) =
           (if rv = Rev2 \<and> \<not> dbPool w
            then \<lparr>statusCode = 500, location = None,
                  content = Text ''Server error: Database connection failed.''\<rparr>
            else \<lparr>statusCode = 302,
                  location = Some (tmpl (FRONTEND_URL (env w)) @ ''/settings?error=true''),
                  content = NoBody\<rparr>)
         \<and> tbl (callback rv w code t) = t"
proof -
  from assms have fails: "\<not> exchange_succeeds rv w code"
    unfolding exchange_fails_iff by blast
  then have "tbl (callback rv w code t) = t" using callback_keeps by blast
  moreover from fails have "res (callback rv w code t) =
           (if rv = Rev2 \<and> \<not> dbPool w
            then \<lparr>statusCode = 500, location = None,
                  content = Text ''Server error: Database connection failed.''\<rparr>
            else \<lparr>statusCode = 302,
                  location = Some (tmpl (FRONTEND_URL (env w)) @ ''/settings?error=true''),
                  content = NoBody\<rparr>)"
    by (cases rv)
      (auto simp: exchange_succeeds_def exchanged_row_def callback_v1_def callback_v2_def
        callback_v3_def exchange_and_store_def execute_def Let_def
        res_redirect_def res_status_def res_send_def res0_def
        split: sum.splits option.splits if_splits)
  ultimately show ?thesis by simp
qed

text \<open>A refused token call in revision 3, and an answer without a token in revision
  1.\<close>

theorem callback_failure_response_witness:
  "res (callback Rev3 world_refused (JStr ''abc123'') []) =
     \<lparr>statusCode = 302, location = Some ''https://app.example/settings?error=true'',
      content = NoBody\<rparr>
   \<and> tbl (callback Rev3 world_refused (JStr ''abc123'') []) = []
   \<and> net world_malformed (token_request Rev1 world_malformed (JStr ''abc123''))
       = Inr (JObj [(''expires_in'', JNum 5184000)])
   \<and> res (callback Rev1 world_malformed (JStr ''abc123'') table1) =
     \<lparr>statusCode = 302, location = Some ''https://app.example/settings?error=true'',
      content = NoBody\<rparr>
   \<and> tbl (callback Rev1 world_malformed (JStr ''abc123'') table1) = table1"
  using callback_failure_response [of world_refused Rev3 "JStr ''abc123''" "[]"]
    callback_failure_response [of world_malformed Rev1 "JStr ''abc123''" table1]
  by (simp add: tmpl_def world_defs world_refused_def world_malformed_def)

text \<open>Revision 2, store unavailable from the start: the end user gets the error text.\<close>

theorem callback_failure_response_counterexample:
  "res (callback Rev2 world_down (JStr ''abc123'') []) =
     \<lparr>statusCode = 500, location = None,
      content = Text ''Server error: Database connection failed.''\<rparr>"
  by (simp add: model_defs world_defs world_down_def)

text \<open>What the token request carries, in every revision: the method, the endpoint, no
  body, and the five fields as axios \<^verbatim>\<open>params\<close>.  The callback address is the one
  \<^verbatim>\<open>GET /auth/linkedin\<close> encodes into the authorization URL.\<close>

lemma callback_calls:
  "truthy code \<Longrightarrow> rv = Rev2 \<longrightarrow> dbPool w \<Longrightarrow>
   calls (callback rv w code t) = [token_request rv w code]"
  by (cases rv)
    (auto simp: callback_v1_def callback_v2_def callback_v3_def Let_def split: sum.splits)

lemma token_request_fields:
  "http_method (token_request rv w code) = ''POST'' \<and>
   url (token_request rv w code) = ''https://www.linkedin.com/oauth/v2/accessToken'' \<and>
   data (token_request rv w code) = JNull \<and>
   params (token_request rv w code) =
     [(''grant_type'', JStr ''authorization_code''),
      (''code'', code),
      (''redirect_uri'', JStr (tmpl (BACKEND_URL (env w)) @ ''/auth/linkedin/callback'')),
      (''client_id'', env_val (LINKEDIN_CLIENT_ID (env w))),
      (''client_secret'', env_val (LINKEDIN_CLIENT_SECRET (env w)))]"
  by (cases rv) (simp_all add: token_request_v1_def token_request_v2_def token_request_v3_def)

lemma auth_linkedin_callback_address:
  "location (auth_linkedin w) =
     Some (''https://www.linkedin.com/oauth/v2/authorization?response_type=code&client_id=''
           @ tmpl (LINKEDIN_CLIENT_ID (env w)) @ ''&redirect_uri=''
           @ encodeURIComponent (tmpl (BACKEND_URL (env w)) @ ''/auth/linkedin/callback'')
           @ ''&scope=r_liteprofile'')"
  by (simp add: auth_linkedin_def res_redirect_def Let_def encodeURIComponent_def unreserved_def)

lemma token_request_content_type:
  "headers (token_request rv w code) =
     [(''Content-Type'',
       if rv = Rev3 then ''application/x-www-form-urlencoded'' else ''application/x-form-urlencoded'')]"
  by (cases rv) (simp_all add: token_request_v1_def token_request_v2_def token_request_v3_def)

text \<open>Claim C8.  The token request sends the grant type, the code, the callback address
  and the client credentials with form-encoded request semantics.  Revisions 1 and
  2 miss the last part: they label the request \<^verbatim>\<open>application/x-form-urlencoded\<close>, which
  is not the form-encoded media type \<^verbatim>\<open>application/x-www-form-urlencoded\<close> that
  revision 3 sends.  The request of revision 1 for the code \<^verbatim>\<open>abc123\<close>:\<close>

theorem token_request_mislabelled:
  "calls (callback_v1 world1 (JStr ''abc123'') []) =
     [\<lparr>http_method = ''POST'', url = ''https://www.linkedin.com/oauth/v2/accessToken'',
       data = JNull,
       params = [(''grant_type'', JStr ''authorization_code''),
                 (''code'', JStr ''abc123''),
                 (''redirect_uri'', JStr ''https://api.example/auth/linkedin/callback''),
                 (''client_id'', JStr ''client''),
                 (''client_secret'', JStr ''secret'')],
       headers = [(''Content-Type'', ''application/x-form-urlencoded'')]\<rparr>]"
  by (simp add: model_defs world_defs)

subsection \<open>The status route\<close>

lemma status_response:
  "res (api_status rv w t) =
     (if rv = Rev2 \<and> \<not> dbPool w
      then \<lparr>statusCode = 200, location = None,
            content = Json (JObj [(''isConnected'', JBool False)])\<rparr>
      else if dbPool w \<and> db_fault w = None
      then \<lparr>statusCode = 200, location = None,
            content = Json (JObj [(''isConnected'', JBool (select_user t ''default_user'' \<noteq> []))])\<rparr>
      else if rv = Rev3
      then \<lparr>statusCode = 500, location = None,
            content = Json (JObj [(''isConnected'', JBool False)])\<rparr>
      else \<lparr>statusCode = 500, location = None,
            content = Json (JObj [(''isConnected'', JBool False),
                                  (''message'', JStr ''Could not check status.'')])\<rparr>)"
  by (cases rv)
    (auto simp: status_v1_def status_v2_def status_v3_def execute_def res_json_def res_status_def
      res0_def split: option.splits)

lemma select_user_expiry:
  "select_user (map (\<lambda>r. r\<lparr>expires_at := f r\<rparr>) t) u = [] \<longleftrightarrow> select_user t u = []"
  by (induction t) (auto simp: select_user_def)

text \<open>Claim C3, as amended.  Whenever the lookup is executed (the pool exists and the
  database answers), the status route answers 200 with \<^verbatim>\<open>isConnected\<close> true if and only
  if the table holds a row for \<^verbatim>\<open>default_user\<close>, whatever the expiry of any row.  When
  the lookup throws it answers 500 with \<^verbatim>\<open>isConnected\<close> false, which the status code
  tells apart from the absence of a row.  In revision 2, when the connection pool was
  never created, the guard at the head of the handler answers 200 with
  \<^verbatim>\<open>isConnected\<close> false without consulting the store: the same response as for a store
  that holds no row.\<close>

theorem status_reports_record:
  "res (api_status rv w t) =
     (if rv = Rev2 \<and> \<not> dbPool w
      then \<lparr>statusCode = 200, location = None,
            content = Json (JObj [(''isConnected'', JBool False)])\<rparr>
      else if dbPool w \<and> db_fault w = None
      then \<lparr>statusCode = 200, location = None,
            content = Json (JObj [(''isConnected'', JBool (select_user t ''default_user'' \<noteq> []))])\<rparr>
      else if rv = Rev3
      then \<lparr>statusCode = 500, location = None,
            content = Json (JObj [(''isConnected'', JBool False)])\<rparr>
      else \<lparr>statusCode = 500, location = None,
            content = Json (JObj [(''isConnected'', JBool False),
                                  (''message'', JStr ''Could not check status.'')])\<rparr>)
   \<and> res (api_status rv w (map (\<lambda>r. r\<lparr>expires_at := f r\<rparr>) t)) = res (api_status rv w t)"
proof (cases rv)
  case Rev1
  then show ?thesis
    by (auto simp: status_v1_def execute_def res_json_def res_status_def res0_def
        select_user_expiry split: option.splits)
next
  case Rev2
  then show ?thesis
    by (auto simp: status_v2_def execute_def res_json_def res_status_def res0_def
        select_user_expiry split: option.splits)
next
  case Rev3
  then show ?thesis
    by (auto simp: status_v3_def execute_def res_json_def res_status_def res0_def
        select_user_expiry split: option.splits)
qed

theorem status_reports_record_witness:
  "res (api_status Rev1 world1 table1) =
     \<lparr>statusCode = 200, location = None, content = Json (JObj [(''isConnected'', JBool True)])\<rparr>
   \<and> res (api_status Rev1 world1 []) =
     \<lparr>statusCode = 200, location = None, content = Json (JObj [(''isConnected'', JBool False)])\<rparr>
   \<and> res (api_status Rev3 world_down table1) =
     \<lparr>statusCode = 500, location = None, content = Json (JObj [(''isConnected'', JBool False)])\<rparr>"
  using status_reports_record [of Rev1 world1 table1] status_reports_record [of Rev1 world1 "[]"]
    status_reports_record [of Rev3 world_down table1]
  by (simp add: world_defs world_down_def table1_def select_user_def)

text \<open>Revision 2 without a pool: a row is on file, the route reports not connected,
  and the response is the one it gives for an empty table on a working store.\<close>

theorem status_reports_record_counterexample:
  "select_user table1 ''default_user'' \<noteq> []
   \<and> res (api_status Rev2 world_down table1) =
       \<lparr>statusCode = 200, location = None, content = Json (JObj [(''isConnected'', JBool False)])\<rparr>
   \<and> res (api_status Rev2 world_down table1) = res (api_status Rev2 world1 [])"
  by (simp add: status_v2_def execute_def select_user_def res_json_def res0_def world_defs
      world_down_def table1_def)

subsection \<open>The posts route\<close>

lemma posts_try_no_row:
  "select_user t ''default_user'' = [] \<Longrightarrow>
   posts_try pr fp w t =
     (if dbPool w \<and> db_fault w = None
      then ([], Inr \<lparr>statusCode = 401, location = None,
               content = Json (JObj [(''message'', JStr ''Not authenticated. Please connect to LinkedIn.'')])\<rparr>)
      else ([], Inl (if \<not> dbPool w then TypeError else DbError (the (db_fault w)))))"
  by (auto simp: posts_try_def execute_def res_json_def res_status_def res0_def split: option.splits)

lemma posts_catch_v1_500: "error_response e = None \<Longrightarrow> statusCode (posts_catch_v1 e) = 500"
  by (simp add: posts_catch_v1_def res_json_def res_status_def res0_def)

lemma posts_catch_v3_500: "error_response e = None \<Longrightarrow> statusCode (posts_catch_v3 rt e) = 500"
  by (simp add: posts_catch_v3_def res_json_def res_status_def res0_def)

lemma posts_try_401:
  "posts_try pr fp w t = (cs, Inr r) \<Longrightarrow> statusCode r = 401 \<Longrightarrow>
   dbPool w \<and> db_fault w = None \<and> select_user t ''default_user'' = []"
  by (auto simp: posts_try_def execute_def res_json_def res_status_def res0_def Let_def
      split: sum.splits option.splits list.splits if_splits)

lemma posts_catch_v1_status: "statusCode (posts_catch_v1 e) \<noteq> 401"
  by (auto simp: posts_catch_v1_def res_json_def res_status_def res0_def split: option.splits)

lemma posts_catch_v3_status: "statusCode (posts_catch_v3 rt e) \<noteq> 401"
  by (auto simp: posts_catch_v3_def res_json_def res_status_def res0_def Let_def split: option.splits)

lemma posts_401:
  "statusCode (res (api_posts rv w t)) = 401 \<Longrightarrow>
   dbPool w \<and> db_fault w = None \<and> select_user t ''default_user'' = []"
  by (cases rv)
    (auto simp: posts_v1_def posts_v2_def posts_v3_def posts_catch_v1_status posts_catch_v3_status
      res_json_def res_status_def res0_def
      split: prod.splits sum.splits if_splits dest: posts_try_401)

text \<open>Claim C4, as amended.  For every store state in which no row exists for
  \<^verbatim>\<open>default_user\<close>, the posts route makes no outbound call and leaves the table alone.
  When the lookup is carried out (the connection pool exists and the database
  answers) it answers 401 with the instruction to connect, and no other outcome of
  the route has status 401.  When the lookup is not carried out or throws (in
  revision 2 the pool was never created and the guard at the head of the handler
  answers; in any revision the database rejects the statement) the route answers 500
  instead.\<close>

theorem posts_without_record:
  assumes "select_user t ''default_user'' = []"
  shows "calls (api_posts rv w t) = [] \<and> tbl (api_posts rv w t) = t
         \<and> (if dbPool w \<and> db_fault w = None
            then res (api_posts rv w t) =
                   \<lparr>statusCode = 401, location = None,
                    content = Json (JObj [(''message'',
                                JStr ''Not authenticated. Please connect to LinkedIn.'')])\<rparr>
            else statusCode (res (api_posts rv w t)) = 500)
         \<and> (\<forall>w' t'. statusCode (res (api_posts rv w' t')) = 401 \<longrightarrow>
               dbPool w' \<and> db_fault w' = None \<and> select_user t' ''default_user'' = [])"
proof -
  have "calls (api_posts rv w t) = [] \<and> tbl (api_posts rv w t) = t
         \<and> (if dbPool w \<and> db_fault w = None
            then res (api_posts rv w t) =
                   \<lparr>statusCode = 401, location = None,
                    content = Json (JObj [(''message'',
                                JStr ''Not authenticated. Please connect to LinkedIn.'')])\<rparr>
            else statusCode (res (api_posts rv w t)) = 500)"
    using assms
    by (cases rv)
      (auto simp: posts_v1_def posts_v2_def posts_v3_def posts_try_no_row posts_catch_v1_500
        posts_catch_v3_500 res_json_def res_status_def res0_def)
  moreover have "\<forall>w' t'. statusCode (res (api_posts rv w' t')) = 401 \<longrightarrow>
               dbPool w' \<and> db_fault w' = None \<and> select_user t' ''default_user'' = []"
    using posts_401 by blast
  ultimately show ?thesis by blast
qed

theorem posts_without_record_witness:
  "select_user [] ''default_user'' = []
   \<and> res (api_posts Rev1 world1 []) =
     \<lparr>statusCode = 401, location = None,
      content = Json (JObj [(''message'', JStr ''Not authenticated. Please connect to LinkedIn.'')])\<rparr>
   \<and> calls (api_posts Rev1 world1 []) = []
   \<and> dbPool world1 \<and> db_fault world1 = None"
  using posts_without_record [of "[]" Rev1 world1]
  by (simp add: world_defs select_user_def)

text \<open>Revision 2 without a pool, nothing on file: the answer is a server error, not
  the instruction to connect.\<close>

theorem posts_without_record_counterexample:
  "select_user [] ''default_user'' = []
   \<and> res (api_posts Rev2 world_down []) =
       \<lparr>statusCode = 500, location = None,
        content = Json (JObj [(''message'', JStr ''Server error: Database connection failed.'')])\<rparr>"
  by (simp add: posts_v2_def select_user_def res_json_def res_status_def res0_def world_defs
      world_down_def)

text \<open>When an outbound call that was made is rejected, the rejection is what the
  \<^verbatim>\<open>try\<close> block throws.\<close>

lemma posts_try_rejected:
  "posts_try pr fp w t = (cs, x) \<Longrightarrow> rq \<in> set cs \<Longrightarrow> net w rq = Inl e \<Longrightarrow> x = Inl e"
  by (auto simp: posts_try_def Let_def split: sum.splits list.splits if_splits)

lemma posts_try_denied:
  "posts_try pr fp w t = (cs, x) \<Longrightarrow> rq \<in> set cs \<Longrightarrow> net w rq = Inl (HttpError 403 d m) \<Longrightarrow>
   x = Inl (HttpError 403 d m)"
  by (rule posts_try_rejected)

text \<open>Only status 403 counts as a denial: any other status of a rejected call, 401
  included, ends in the 500 of the other failures.\<close>

lemma posts_other_status:
  assumes "rq \<in> set (calls (api_posts rv w t))" and "net w rq = Inl (HttpError st d m)"
    and "st \<noteq> 403"
  shows "statusCode (res (api_posts rv w t)) = 500"
proof -
  have v1: "statusCode (posts_catch_v1 (HttpError st d m)) = 500"
    using assms(3) by (simp add: posts_catch_v1_def res_json_def res_status_def res0_def)
  have v3: "statusCode (posts_catch_v3 (runtime w) (HttpError st d m)) = 500"
    using assms(3) by (simp add: posts_catch_v3_def res_json_def res_status_def res0_def)
  show ?thesis
  proof (cases rv)
    case Rev1
    obtain cs x where tr: "posts_try posts_request_v1 format_post_v1 w t = (cs, x)"
      by (cases "posts_try posts_request_v1 format_post_v1 w t")
    with assms Rev1 have "rq \<in> set cs" by (auto simp: posts_v1_def split: sum.splits)
    with tr assms(2) have "x = Inl (HttpError st d m)" by (blast dest: posts_try_rejected)
    with tr Rev1 v1 show ?thesis by (simp add: posts_v1_def)
  next
    case Rev2
    obtain cs x where tr: "posts_try posts_request_v1 format_post_v1 w t = (cs, x)"
      by (cases "posts_try posts_request_v1 format_post_v1 w t")
    from assms Rev2 have pool: "dbPool w" by (auto simp: posts_v2_def split: if_splits)
    with tr assms Rev2 have "rq \<in> set cs" by (auto simp: posts_v2_def split: sum.splits)
    with tr assms(2) have "x = Inl (HttpError st d m)" by (blast dest: posts_try_rejected)
    with tr Rev2 pool v1 show ?thesis by (simp add: posts_v2_def)
  next
    case Rev3
    obtain cs x where tr: "posts_try posts_request_v3 format_post_v3 w t = (cs, x)"
      by (cases "posts_try posts_request_v3 format_post_v3 w t")
    with assms Rev3 have "rq \<in> set cs" by (auto simp: posts_v3_def split: sum.splits)
    with tr assms(2) have "x = Inl (HttpError st d m)" by (blast dest: posts_try_rejected)
    with tr Rev3 v3 show ?thesis by (simp add: posts_v3_def)
  qed
qed

text \<open>Claim C5.  In every execution of the posts route in which an outbound call that
  was made (the identity lookup or the post listing) is answered with status 403, the
  route answers 403 with a message that names the missing product, the Community
  Management API; so not with the 500 of the other failures.\<close>

theorem posts_permission_denied:
  assumes "rq \<in> set (calls (api_posts rv w t))" and "net w rq = Inl (HttpError 403 d m)"
  shows \<open>res (api_posts rv w t) =
           \<lparr>statusCode = 403, location = None,
            content = Json (JObj [(''message'', JStr
              (if rv = Rev3
               then ''Permission Denied. Ensure your LinkedIn App has been approved for the "Community Management API" product to read posts.''
               else ''Authentication successful, but you do not have permission to access post data. Please ensure your LinkedIn App has the "Community Management API" product approved.''))])\<rparr>\<close>
proof (cases rv)
  case Rev1
  obtain cs x where tr: "posts_try posts_request_v1 format_post_v1 w t = (cs, x)"
    by (cases "posts_try posts_request_v1 format_post_v1 w t")
  with assms Rev1 have "rq \<in> set cs" by (auto simp: posts_v1_def split: sum.splits)
  with tr assms(2) have "x = Inl (HttpError 403 d m)" by (blast dest: posts_try_denied)
  with tr Rev1 show ?thesis
    by (simp add: posts_v1_def posts_catch_v1_def res_json_def res_status_def res0_def)
next
  case Rev2
  obtain cs x where tr: "posts_try posts_request_v1 format_post_v1 w t = (cs, x)"
    by (cases "posts_try posts_request_v1 format_post_v1 w t")
  from assms Rev2 have pool: "dbPool w" by (auto simp: posts_v2_def split: if_splits)
  with tr assms Rev2 have "rq \<in> set cs" by (auto simp: posts_v2_def split: sum.splits)
  with tr assms(2) have "x = Inl (HttpError 403 d m)" by (blast dest: posts_try_denied)
  with tr Rev2 pool show ?thesis
    by (simp add: posts_v2_def posts_catch_v1_def res_json_def res_status_def res0_def)
next
  case Rev3
  obtain cs x where tr: "posts_try posts_request_v3 format_post_v3 w t = (cs, x)"
    by (cases "posts_try posts_request_v3 format_post_v3 w t")
  with assms Rev3 have "rq \<in> set cs" by (auto simp: posts_v3_def split: sum.splits)
  with tr assms(2) have "x = Inl (HttpError 403 d m)" by (blast dest: posts_try_denied)
  with tr Rev3 show ?thesis
    by (simp add: posts_v3_def posts_catch_v3_def res_json_def res_status_def res0_def)
qed

theorem posts_permission_denied_witness:
  \<open>res (api_posts Rev1 world_denied table1) =
     \<lparr>statusCode = 403, location = None,
      content = Json (JObj [(''message'', JStr ''Authentication successful, but you do not have permission to access post data. Please ensure your LinkedIn App has the "Community Management API" product approved.'')])\<rparr>\<close>
  using posts_permission_denied [of "posts_request_v1 (JStr ''tok1'') (JStr ''me'')" Rev1
      world_denied table1 "JObj [(''message'', JStr ''Not enough permissions'')]"
      "''Request failed with status code 403''"]
  by (simp add: posts_v1_def posts_try_def execute_def select_user_def profile_request_def
      posts_request_v1_def world_denied_def table1_def world_defs Let_def)

subsection \<open>Normalized posts\<close>

lemma get_prop_opt: "get_prop v k = Inr x \<Longrightarrow> x = opt_prop v k"
  by (cases v) auto

lemma truthy_defined: "truthy v \<Longrightarrow> v \<noteq> JUndefined \<and> v \<noteq> JNull"
  by (cases v) auto

text \<open>Claim C6, as amended.  Every provider post that a formatter normalizes yields an
  object with the eight fields of the shape.  When the post carries no media
  reference, \<^verbatim>\<open>imageUrl\<close> is the placeholder string (a fixed non-empty URL followed by a
  random number); when the commentary is absent (or empty), \<^verbatim>\<open>content\<close> is the empty
  string; \<^verbatim>\<open>content\<close> and \<^verbatim>\<open>imageUrl\<close> are never \<^verbatim>\<open>null\<close> or \<^verbatim>\<open>undefined\<close>, the metrics and
  the five reaction counts are numbers and the date is a string.  The \<^verbatim>\<open>id\<close> is the
  \<^verbatim>\<open>id\<close> of the provider post as it came, with no fallback: it is \<^verbatim>\<open>undefined\<close> (and so
  left out of the JSON) when the provider post has none.\<close>

theorem normalized_post_shape:
  assumes "format_post rv w i post = Inr (out, j)"
  shows "\<exists>content' imageUrl impressions likes celebrations loves insights funny comments shares date.
           out = JObj [(''id'', opt_prop post ''id''),
                       (''content'', content'),
                       (''imageUrl'', imageUrl),
                       (''impressions'', JNum impressions),
                       (''reactions'', JObj [(''likes'', JNum likes), (''celebrations'', JNum celebrations),
                                             (''loves'', JNum loves), (''insights'', JNum insights),
                                             (''funny'', JNum funny)]),
                       (''comments'', JNum comments),
                       (''shares'', JNum shares),
                       (''date'', JStr date)]
           \<and> content' \<noteq> JUndefined \<and> content' \<noteq> JNull
           \<and> imageUrl \<noteq> JUndefined \<and> imageUrl \<noteq> JNull
           \<and> (\<not> truthy (commentary_of rv post) \<longrightarrow> content' = JStr [])
           \<and> (\<not> truthy (media_of rv post) \<longrightarrow>
                imageUrl = JStr (''https://picsum.photos/800/400?random=''
                                 @ string_of_int (random_below w i 1000)))"
proof (cases rv)
  case Rev1
  with assms show ?thesis
    by (auto simp: format_post_v1_def Let_def truthy_defined split: sum.splits dest!: get_prop_opt)
next
  case Rev2
  with assms show ?thesis
    by (auto simp: format_post_v1_def Let_def truthy_defined split: sum.splits dest!: get_prop_opt)
next
  case Rev3
  with assms show ?thesis
    by (auto simp: format_post_v3_def Let_def truthy_defined split: sum.splits dest!: get_prop_opt)
qed

text \<open>Evaluation of the date and the random draws of \<open>world1\<close>.\<close>

lemma iso_2023: "toISOString (Some 1700000000000) = Inr ''2023-11-14T22:13:20.000Z''"
  by code_simp

lemma iso_epoch: "toISOString (Some 0) = Inr ''1970-01-01T00:00:00.000Z''"
  by code_simp

lemma string_of_int_500: "string_of_int 500 = ''500''"
  by code_simp

lemma random_below_world1: "random_below world1 i n = n div 2"
  using floor_divide_of_int_eq [of n 2, where ?'a = real]
  by (simp add: random_below_def world1_def)

theorem normalized_post_shape_witness:
  "format_post Rev1 world1 0 (JObj [(''id'', JStr ''p1''), (''createdAt'', JNum 1700000000000)]) =
     Inr (JObj [(''id'', JStr ''p1''),
                (''content'', JStr []),
                (''imageUrl'', JStr ''https://picsum.photos/800/400?random=500''),
                (''impressions'', JNum 0),
                (''reactions'', JObj [(''likes'', JNum 0), (''celebrations'', JNum 0),
                                      (''loves'', JNum 0), (''insights'', JNum 0),
                                      (''funny'', JNum 0)]),
                (''comments'', JNum 0),
                (''shares'', JNum 0),
                (''date'', JStr ''2023-11-14'')], 1)
   \<and> \<not> truthy (commentary_of Rev1 (JObj [(''id'', JStr ''p1''), (''createdAt'', JNum 1700000000000)]))
   \<and> \<not> truthy (media_of Rev1 (JObj [(''id'', JStr ''p1''), (''createdAt'', JNum 1700000000000)]))"
proof -
  have eq: "format_post Rev1 world1 0 (JObj [(''id'', JStr ''p1''), (''createdAt'', JNum 1700000000000)]) =
     Inr (JObj [(''id'', JStr ''p1''),
                (''content'', JStr []),
                (''imageUrl'', JStr ''https://picsum.photos/800/400?random=500''),
                (''impressions'', JNum 0),
                (''reactions'', JObj [(''likes'', JNum 0), (''celebrations'', JNum 0),
                                      (''loves'', JNum 0), (''insights'', JNum 0),
                                      (''funny'', JNum 0)]),
                (''comments'', JNum 0),
                (''shares'', JNum 0),
                (''date'', JStr ''2023-11-14'')], 1)"
    by (simp add: format_post_v1_def random_below_world1 string_of_int_500 iso_2023 new_Date_def
        TimeClip_def before_T_def)
  from normalized_post_shape [OF eq] eq show ?thesis by simp
qed

text \<open>A provider post without an \<^verbatim>\<open>id\<close>: the normalized post has none either.\<close>

theorem normalized_post_shape_counterexample:
  "format_post Rev1 world1 0 (JObj [(''createdAt'', JNum 1700000000000)]) =
     Inr (JObj [(''id'', JUndefined),
                (''content'', JStr []),
                (''imageUrl'', JStr ''https://picsum.photos/800/400?random=500''),
                (''impressions'', JNum 0),
                (''reactions'', JObj [(''likes'', JNum 0), (''celebrations'', JNum 0),
                                      (''loves'', JNum 0), (''insights'', JNum 0),
                                      (''funny'', JNum 0)]),
                (''comments'', JNum 0),
                (''shares'', JNum 0),
                (''date'', JStr ''2023-11-14'')], 1)"
  by (simp add: format_post_v1_def random_below_world1 string_of_int_500 iso_2023 new_Date_def
      TimeClip_def before_T_def)

text \<open>The formatter of revisions 1 and 2 reports zeros for the metrics it has no data
  for; the formatter of revision 3 never reports fewer than 500 impressions.\<close>

lemma honest_zeros_v1:
  assumes "format_post_v1 w i post = Inr (out, j)"
  shows "opt_prop out ''impressions'' = JNum 0 \<and> opt_prop out ''comments'' = JNum 0
         \<and> opt_prop out ''shares'' = JNum 0
         \<and> opt_prop out ''reactions'' =
             JObj [(''likes'', JNum 0), (''celebrations'', JNum 0), (''loves'', JNum 0),
                   (''insights'', JNum 0), (''funny'', JNum 0)]"
  using assms by (auto simp: format_post_v1_def Let_def split: sum.splits)

lemma fabricated_impressions_v3:
  assumes "format_post_v3 w i post = Inr (out, j)" and "0 \<le> random w (i + 1)"
  shows "\<exists>n. opt_prop out ''impressions'' = JNum n \<and> 500 \<le> n"
  using assms by (auto simp: format_post_v3_def Let_def random_below_def split: sum.splits)

text \<open>Claim C7.  For a provider post without engagement data the normalized
  impressions, comments, shares and reaction counts are zeros, never fabricated or
  randomized.  Revisions 1 and 2 do so (\<open>honest_zeros_v1\<close>); revision 3 does not: it
  draws every metric from \<^verbatim>\<open>Math.random()\<close>.  With each draw at one half, a share that
  carries no engagement data becomes:\<close>

theorem fabricated_metrics_v3:
  "format_post_v3 world1 0 share1 =
     Inr (JObj [(''id'', JStr ''s1''),
                (''content'', JStr ''hi''),
                (''imageUrl'', JStr ''https://picsum.photos/800/400?random=500''),
                (''impressions'', JNum 3000),
                (''reactions'', JObj [(''likes'', JNum 50), (''celebrations'', JNum 10),
                                      (''loves'', JNum 7), (''insights'', JNum 12),
                                      (''funny'', JNum 2)]),
                (''comments'', JNum 25),
                (''shares'', JNum 5),
                (''date'', JStr ''2023-11-14'')], 9)"
  by (simp add: format_post_v3_def random_below_world1 string_of_int_500 iso_2023 new_Date_def
      TimeClip_def before_T_def share1_def)

subsection \<open>One key for every operation\<close>

lemma posts_first_call:
  assumes "dbPool w" and "db_fault w = None" and "select_user t ''default_user'' = row # rows"
  shows "\<exists>rest. calls (api_posts rv w t) = profile_request (access_token row) # rest"
  using assms
  by (cases rv)
    (auto simp: posts_v1_def posts_v2_def posts_v3_def posts_try_def execute_def Let_def
      split: sum.splits)

text \<open>Claim C10.  The upsert of the callback route and the lookups of the status and
  posts routes use the one key \<^verbatim>\<open>default_user\<close>: after a successful exchange on a keyed
  table, the row on file for that key is the row of the exchange; on a working store
  the status route (of any revision) reports connected, and the first outbound call
  of the posts route bears the token of that row.\<close>

theorem written_token_is_read:
  assumes "keyed t" and "successful rv w code" and "dbPool w'" and "db_fault w' = None"
  shows "\<exists>row. exchanged_row rv w code = Inr row
           \<and> select_user (tbl (callback rv w code t)) ''default_user'' = [row]
           \<and> res (api_status rv' w' (tbl (callback rv w code t))) =
               \<lparr>statusCode = 200, location = None,
                content = Json (JObj [(''isConnected'', JBool True)])\<rparr>
           \<and> (\<exists>rest. calls (api_posts rv' w' (tbl (callback rv w code t))) =
                  profile_request (access_token row) # rest)"
proof -
  from callback_cases [of rv w code t] assms(2)
  obtain row where row: "exchanged_row rv w code = Inr row"
    and t': "tbl (callback rv w code t) = upsert t row" by blast
  from row have "user_id row = ''default_user''"
    by (auto simp: exchanged_row_def split: sum.splits dest: token_row_user)
  with select_upsert_same [OF assms(1), of row] t'
  have sel: "select_user (tbl (callback rv w code t)) ''default_user'' = [row]" by simp
  with assms(3,4) have "res (api_status rv' w' (tbl (callback rv w code t))) =
               \<lparr>statusCode = 200, location = None,
                content = Json (JObj [(''isConnected'', JBool True)])\<rparr>"
    by (simp add: status_response)
  moreover from posts_first_call [OF assms(3,4) sel]
  have "\<exists>rest. calls (api_posts rv' w' (tbl (callback rv w code t))) =
                  profile_request (access_token row) # rest" .
  ultimately show ?thesis using row sel by blast
qed

theorem written_token_is_read_witness:
  "select_user (tbl (callback Rev3 world1 (JStr ''abc123'') [])) ''default_user''
     = [\<lparr>user_id = ''default_user'', access_token = JStr ''tok1'',
          expires_at = Some 1705184000123\<rparr>]
   \<and> res (api_status Rev3 world2 (tbl (callback Rev3 world1 (JStr ''abc123'') []))) =
       \<lparr>statusCode = 200, location = None,
        content = Json (JObj [(''isConnected'', JBool True)])\<rparr>
   \<and> hd (calls (api_posts Rev3 world2 (tbl (callback Rev3 world1 (JStr ''abc123'') [])))) =
       \<lparr>http_method = ''GET'', url = ''https://api.linkedin.com/v2/me'', data = JUndefined,
        params = [], headers = [(''Authorization'', ''Bearer tok1'')]\<rparr>"
  using written_token_is_read [of "[]" Rev3 world1 "JStr ''abc123''" world2 Rev3]
  by (auto simp: model_defs world_defs world2_def successful_def keyed_def exchanged_row_def
      profile_request_def)

end
